theory Spec2Isabelle
  imports
    Main
    "HOL-Library.Word"
    "HOL-Library.AList"
    "HOL-Library.List_Lexorder"
    "HOL-Library.Char_ord"
    "HOL-Library.Multiset"
begin

section \<open>The alert configuration syncer (configsyncer.go)\<close>

text \<open>
  A shallow embedding of \<^verbatim>\<open>pkg/controllers/user/alert/configsyncer/configsyncer.go\<close>.
  Go structs are records, pointers that may be nil are options, Go maps that the code
  iterates over are association lists (the iteration order of a Go map is arbitrary, and
  the code sorts the keys it collects), other Go maps are partial functions, and every
  loop is a recursion or a fold over the list it ranges over. Errors are their messages.
\<close>

subsection \<open>Go primitives\<close>

type_synonym goint = "64 word"
  \<comment> \<open>Go's \<^verbatim>\<open>int\<close> on the 64-bit platforms the controller is built for\<close>

type_synonym Duration = "64 word"
  \<comment> \<open>\<^verbatim>\<open>model.Duration\<close>, a \<^verbatim>\<open>time.Duration\<close>: signed 64-bit nanoseconds\<close>

definition Second :: Duration where
  "Second = 1000000000"

fun utoa :: "nat \<Rightarrow> string" where
  "utoa n = (if n < 10 then [''0123456789'' ! n]
             else utoa (n div 10) @ [''0123456789'' ! (n mod 10)])"

declare utoa.simps [simp del]

definition Itoa :: "goint \<Rightarrow> string" where
  \<comment> \<open>\<^verbatim>\<open>strconv.Itoa\<close>\<close>
  "Itoa i = (if sint i < 0 then CHR ''-'' # utoa (nat (- sint i)) else utoa (nat (sint i)))"

definition Wrapf :: "string \<Rightarrow> string \<Rightarrow> string" where
  \<comment> \<open>\<^verbatim>\<open>errors.Wrapf(err, msg)\<close>: the message of the wrapped error\<close>
  "Wrapf err msg = msg @ '': '' @ err"

text \<open>
  A Go map that is ranged over: an association list with distinct keys. Reading a
  missing key gives the zero value, which for a slice and for a map is the empty one.
\<close>

definition index :: "(string \<times> 'a list) list \<Rightarrow> string \<Rightarrow> 'a list" where
  "index m k = (case map_of m k of None \<Rightarrow> [] | Some v \<Rightarrow> v)"

definition has_key :: "(string \<times> 'a) list \<Rightarrow> string \<Rightarrow> bool" where
  "has_key m k = (map_of m k \<noteq> None)"

definition range_keys :: "(string \<times> 'a) list \<Rightarrow> string list" where
  \<comment> \<open>\<^verbatim>\<open>for k := range m { keys = append(keys, k) }\<close>, in one of the possible orders\<close>
  "range_keys m = map fst m"

definition sort_Strings :: "string list \<Rightarrow> string list" where
  \<comment> \<open>\<^verbatim>\<open>sort.Strings\<close>: ascending, bytewise lexicographic\<close>
  "sort_Strings ks = sort ks"

subsection \<open>The declarative objects (package v3)\<close>

text \<open>
  The structs of \<^verbatim>\<open>github.com/rancher/types\<close> are declared outside this file; the
  records below have the fields that the file reads. A rule's payload pointers other
  than the metric one are only compared with nil.
\<close>

type_synonym MetricRule = string
  \<comment> \<open>the metric payload, which the file only hands to \<^verbatim>\<open>manager.Metric2Rule\<close>\<close>

record Recipient =
  NotifierName :: string
  Recipient :: string

record v3_PagerdutyConfig =
  ServiceKey :: string

record v3_WebhookConfig =
  URL :: string

record v3_SlackConfig =
  DefaultRecipient :: string
  URL :: string

record v3_SMTPConfig =
  Host :: string
  Port :: goint
  Username :: string
  Password :: string
  Sender :: string
  DefaultRecipient :: string
  TLS :: bool

record NotifierSpec =
  PagerdutyConfig :: "v3_PagerdutyConfig option"
  WebhookConfig :: "v3_WebhookConfig option"
  SlackConfig :: "v3_SlackConfig option"
  SMTPConfig :: "v3_SMTPConfig option"

record Notifier =
  Name :: string
  Spec :: NotifierSpec

record CommonRuleField =
  DisplayName :: string
  Severity :: string
  GroupWaitSeconds :: goint
  GroupIntervalSeconds :: goint
  RepeatIntervalSeconds :: goint

record AlertStatus =
  AlertState :: string

record ClusterAlertRuleSpec =
  CommonRuleField :: CommonRuleField
  GroupName :: string
  SystemServiceRule :: "unit option"
  NodeRule :: "unit option"
  EventRule :: "unit option"
  MetricRule :: "MetricRule option"

record ClusterAlertRule =
  Name :: string
  Spec :: ClusterAlertRuleSpec
  Status :: AlertStatus

record ProjectAlertRuleSpec =
  CommonRuleField :: CommonRuleField
  ProjectName :: string
  GroupName :: string
  PodRule :: "unit option"
  WorkloadRule :: "unit option"
  MetricRule :: "MetricRule option"

record ProjectAlertRule =
  Namespace :: string
  Name :: string
  Spec :: ProjectAlertRuleSpec
  Status :: AlertStatus

record ClusterGroupSpec =
  Recipients :: "Recipient list"

record ClusterAlertGroup =
  Spec :: ClusterGroupSpec

record ProjectGroupSpec =
  Recipients :: "Recipient list"

record ProjectAlertGroup =
  Spec :: ProjectGroupSpec

subsection \<open>The configuration document (package alertconfig)\<close>

record PagerdutyConfig =
  ServiceKey :: string
  Description :: string

record WebhookConfig =
  URL :: string

record SlackConfig =
  APIURL :: string
  Channel :: string
  Text :: string
  Title :: string
  TitleLink :: string
  Color :: string

record EmailConfig =
  Smarthost :: string
  AuthPassword :: string
  AuthUsername :: string
  RequireTLS :: "bool option"
  To :: string
  Headers :: "string \<rightharpoonup> string"
  From :: string
  HTML :: string

record Receiver =
  Name :: string
  PagerdutyConfigs :: "PagerdutyConfig list"
  WebhookConfigs :: "WebhookConfig list"
  SlackConfigs :: "SlackConfig list"
  EmailConfigs :: "EmailConfig list"

datatype Route = MkRoute
  (Receiver: string)
  (Match: "string \<rightharpoonup> string")
  (GroupWait: "Duration option")
  (GroupInterval: "Duration option")
  (RepeatInterval: "Duration option")
  (Routes: "Route list")

record GlobalConfig =
  PagerdutyURL :: string

record Config =
  Global :: GlobalConfig
  Receivers :: "Receiver list"
  Route :: Route

subsection \<open>The rule-group artifacts and the secret\<close>

type_synonym Rule = string
  \<comment> \<open>\<^verbatim>\<open>monitoringv1.Rule\<close>, which the file only moves from \<^verbatim>\<open>Metric2Rule\<close> to \<^verbatim>\<open>AddRule\<close>\<close>

record RuleGroup =
  Name :: string
  Rules :: "Rule list"

record PrometheusRule =
  Namespace :: string
  Name :: string
  Groups :: "RuleGroup list"

record Secret =
  Data :: "(string \<rightharpoonup> string) option"
    \<comment> \<open>\<open>None\<close> is the nil map\<close>

subsection \<open>Collaborators\<close>

text \<open>
  An error of the API machinery: its message, and whether \<^verbatim>\<open>apierrors.IsNotFound\<close>
  holds of it. A lister's \<^verbatim>\<open>Get\<close> returns an object pointer and an error.
\<close>

record APIError =
  Error :: string
  IsNotFound :: bool

record AlertManager =
  IsDeploy :: bool
  GetAlertManagerEndpoint :: "string + string"

record PromOperatorCRDManager =
  GetDefaultPrometheusRule :: "string \<Rightarrow> string \<Rightarrow> PrometheusRule"
  SyncPrometheusRule :: "PrometheusRule \<Rightarrow> string option"
    \<comment> \<open>the error that publishing this artifact returns, \<open>None\<close> for nil\<close>

record ConfigSyncer =
  secretsUpdate :: "Secret \<Rightarrow> string option"
    \<comment> \<open>the error that \<^verbatim>\<open>secretClient.Update\<close> returns for this secret, \<open>None\<close> for nil\<close>
  projectAlertGroupLister :: "string \<Rightarrow> string \<Rightarrow> ProjectAlertGroup option \<times> APIError option"
  clusterAlertGroupLister :: "string \<Rightarrow> string \<Rightarrow> ClusterAlertGroup option \<times> APIError option"
  projectAlertRuleLister :: "string + ProjectAlertRule list"
  clusterAlertRuleLister :: "string + ClusterAlertRule list"
  notifierLister :: "string + Notifier list"
  clusterName :: string
  alertManager :: AlertManager
  operatorCRDManager :: PromOperatorCRDManager

text \<open>
  The functions and values of other packages that the file calls and that are not part
  of it; the definitions below take them as a parameter.
\<close>

record Pkg =
  ref_Parse :: "string \<Rightarrow> string \<times> string"
  GetRuleID :: "string \<Rightarrow> string \<Rightarrow> string"
  Metric2Rule :: "string \<Rightarrow> string \<Rightarrow> string \<Rightarrow> string \<Rightarrow> string \<Rightarrow> MetricRule \<Rightarrow> Rule"
  ObjectInCluster :: "string \<Rightarrow> ProjectAlertRule \<Rightarrow> bool"
  ClusterMonitoringInfo :: "string \<times> string"
  ProjectMonitoringInfo :: "string \<Rightarrow> string \<times> string"
  ClusterAlertManagerInfo :: "string \<times> string"
  GetAlertManagerSecretName :: "string \<Rightarrow> string"
  GetAlertManagerDefaultConfig :: Config
  yaml_Marshal :: "Config \<Rightarrow> string + string"
  NotificationTmpl :: string

text \<open>
  What a reconcile does to the outside: the listings it asks for, the artifacts it hands
  to \<^verbatim>\<open>SyncPrometheusRule\<close>, the secrets it hands to \<^verbatim>\<open>Update\<close>, each in call order,
  and the secret store itself: what \<^verbatim>\<open>Get\<close> answers for a namespace and a name, an
  error or the secret.
\<close>

datatype lister = NotifierLister | ClusterAlertRuleLister | ProjectAlertRuleLister

record World =
  secrets :: "string \<times> string \<Rightarrow> string + Secret"
  listed :: "lister list"
  synced :: "PrometheusRule list"
  updated :: "Secret list"

datatype outcome = Nil | Err string | Panic

subsection \<open>The package variables\<close>

definition defaultGroupInterval :: goint where
  "defaultGroupInterval = 10"

definition eventGroupInterval :: goint where
  "eventGroupInterval = 1"

definition defaultGroupWait :: goint where
  "defaultGroupWait = 10"

definition defaultRepeatInterval :: goint where
  "defaultRepeatInterval = 10"

subsection \<open>Loops that return at the first error\<close>

fun range_err :: "('s \<Rightarrow> 'a \<Rightarrow> string + 's) \<Rightarrow> 's \<Rightarrow> 'a list \<Rightarrow> string + 's" where
  "range_err step s [] = Inr s"
| "range_err step s (x # xs) =
     (case step s x of Inl err \<Rightarrow> Inl err | Inr s' \<Rightarrow> range_err step s' xs)"

fun range_world :: "('a \<Rightarrow> World \<Rightarrow> string option \<times> World) \<Rightarrow> 'a list \<Rightarrow> World \<Rightarrow> string option \<times> World" where
  "range_world step [] w = (None, w)"
| "range_world step (x # xs) w =
     (case step x w of (Some err, w') \<Rightarrow> (Some err, w') | (None, w') \<Rightarrow> range_world step xs w')"

subsection \<open>Recipients (lines 188-197 and 387-457)\<close>

fun getNotifier :: "ConfigSyncer \<Rightarrow> string \<Rightarrow> Notifier list \<Rightarrow> Notifier option" where
  "getNotifier d ident [] = None"
| "getNotifier d ident (n # notifiers) =
     (if clusterName d @ '':'' @ Notifier.Name n = ident then Some n
      else getNotifier d ident notifiers)"

definition tmpl_rancher_title :: string where
  \<open>tmpl_rancher_title = ''{{ template "rancher.title" . }}''\<close>

definition tmpl_slack_text :: string where
  \<open>tmpl_slack_text = ''{{ template "slack.text" . }}''\<close>

definition tmpl_email_text :: string where
  \<open>tmpl_email_text = ''{{ template "email.text" . }}''\<close>

definition tmpl_slack_color :: string where
  \<open>tmpl_slack_color =
     ''{{ if eq (index .Alerts 0).Labels.severity "critical" }}danger'' @
     ''{{ else if eq (index .Alerts 0).Labels.severity "warning" }}warning'' @
     ''{{ else }}good{{ end }}''\<close>

definition addRecipient :: "ConfigSyncer \<Rightarrow> Notifier list \<Rightarrow> Receiver \<times> bool \<Rightarrow> Recipient \<Rightarrow> Receiver \<times> bool" where
  \<comment> \<open>the body of the loop of \<^verbatim>\<open>addRecipients\<close>, on the receiver and \<^verbatim>\<open>receiverExist\<close>\<close>
  "addRecipient d notifiers acc r =
     (let (receiver, receiverExist) = acc in
      if NotifierName r \<noteq> [] then
        (case getNotifier d (NotifierName r) notifiers of
           None \<Rightarrow> (receiver, receiverExist)
         | Some notifier \<Rightarrow>
            (case PagerdutyConfig (Notifier.Spec notifier) of
               Some pc \<Rightarrow>
                 (let pagerduty = \<lparr> PagerdutyConfig.ServiceKey = v3_PagerdutyConfig.ServiceKey pc,
                                    Description = tmpl_rancher_title \<rparr>;
                      pagerduty = (if Recipient r \<noteq> []
                                   then pagerduty \<lparr> PagerdutyConfig.ServiceKey := Recipient r \<rparr>
                                   else pagerduty)
                  in (receiver \<lparr> PagerdutyConfigs := PagerdutyConfigs receiver @ [pagerduty] \<rparr>, True))
             | None \<Rightarrow>
            (case WebhookConfig (Notifier.Spec notifier) of
               Some wc \<Rightarrow>
                 (let webhook = \<lparr> WebhookConfig.URL = v3_WebhookConfig.URL wc \<rparr>;
                      webhook = (if Recipient r \<noteq> []
                                 then webhook \<lparr> WebhookConfig.URL := Recipient r \<rparr>
                                 else webhook)
                  in (receiver \<lparr> WebhookConfigs := WebhookConfigs receiver @ [webhook] \<rparr>, True))
             | None \<Rightarrow>
            (case SlackConfig (Notifier.Spec notifier) of
               Some sc \<Rightarrow>
                 (let slack = \<lparr> APIURL = v3_SlackConfig.URL sc,
                                Channel = v3_SlackConfig.DefaultRecipient sc,
                                Text = tmpl_slack_text,
                                Title = tmpl_rancher_title,
                                TitleLink = [],
                                Color = tmpl_slack_color \<rparr>;
                      slack = (if Recipient r \<noteq> [] then slack \<lparr> Channel := Recipient r \<rparr> else slack)
                  in (receiver \<lparr> SlackConfigs := SlackConfigs receiver @ [slack] \<rparr>, True))
             | None \<Rightarrow>
            (case SMTPConfig (Notifier.Spec notifier) of
               Some mc \<Rightarrow>
                 (let header = Map.empty(''Subject'' \<mapsto> tmpl_rancher_title);
                      email = \<lparr> Smarthost = Host mc @ '':'' @ Itoa (Port mc),
                                AuthPassword = Password mc,
                                AuthUsername = Username mc,
                                RequireTLS = Some (TLS mc),
                                To = v3_SMTPConfig.DefaultRecipient mc,
                                Headers = header,
                                From = Sender mc,
                                HTML = tmpl_email_text \<rparr>;
                      email = (if Recipient r \<noteq> [] then email \<lparr> To := Recipient r \<rparr> else email)
                  in (receiver \<lparr> EmailConfigs := EmailConfigs receiver @ [email] \<rparr>, True))
             | None \<Rightarrow> (receiver, receiverExist))))))
      else (receiver, receiverExist))"

definition addRecipients :: "ConfigSyncer \<Rightarrow> Notifier list \<Rightarrow> Receiver \<Rightarrow> Recipient list \<Rightarrow> Receiver \<times> bool" where
  \<comment> \<open>the receiver as the loop leaves it, and the flag returned\<close>
  "addRecipients d notifiers receiver recipients =
     foldl (addRecipient d notifiers) (receiver, False) recipients"

subsection \<open>Routes (lines 358-385)\<close>

definition newRoute :: "(string \<rightharpoonup> string) \<Rightarrow> goint \<Rightarrow> goint \<Rightarrow> goint \<Rightarrow> Route" where
  "newRoute match groupWait groupInterval repeatInterval =
     (let gw = groupWait * Second;
          ri = repeatInterval * Second
      in MkRoute (case match ''group_id'' of None \<Rightarrow> [] | Some v \<Rightarrow> v) match
           (Some gw)
           (if groupInterval \<noteq> defaultGroupInterval then Some (groupInterval * Second) else None)
           (Some ri)
           [])"

definition appendRoute :: "Route \<Rightarrow> Route \<Rightarrow> Route" where
  \<comment> \<open>the parent route after the call\<close>
  "appendRoute route subRoute =
     (case route of MkRoute rc m g gi ri rs \<Rightarrow> MkRoute rc m g gi ri (rs @ [subRoute]))"

definition addRule :: "string \<Rightarrow> Route \<Rightarrow> CommonRuleField \<Rightarrow> Route" where
  "addRule ruleID route comm =
     (let r2 = newRoute (Map.empty(''rule_id'' \<mapsto> ruleID))
                 (GroupWaitSeconds comm) (GroupIntervalSeconds comm) (RepeatIntervalSeconds comm)
      in appendRoute route r2)"

subsection \<open>The rule-CR store\<close>

definition GetRuleGroup :: "string \<Rightarrow> RuleGroup" where
  \<comment> \<open>Modelled from the spec: \<^verbatim>\<open>manager.PromOperatorCRDManager.GetRuleGroup\<close> is not in the
     file; the spec's "get-or-create rule-group-entry(group-id)", an entry keyed by the
     group id, with no rule yet.\<close>
  "GetRuleGroup name = \<lparr> RuleGroup.Name = name, Rules = [] \<rparr>"

definition AddRule :: "RuleGroup \<Rightarrow> Rule \<Rightarrow> RuleGroup" where
  \<comment> \<open>Modelled from the spec: \<^verbatim>\<open>manager.PromOperatorCRDManager.AddRule\<close> is not in the file;
     the spec's "append-rule(entry, expression)".\<close>
  "AddRule ruleGroup rule = ruleGroup \<lparr> Rules := Rules ruleGroup @ [rule] \<rparr>"

definition AddRuleGroup :: "PrometheusRule \<Rightarrow> RuleGroup \<Rightarrow> PrometheusRule" where
  \<comment> \<open>Modelled from the spec: \<^verbatim>\<open>manager.PromOperatorCRDManager.AddRuleGroup\<close> is not in the
     file; the spec's "attach-entry(artifact, entry)".\<close>
  "AddRuleGroup promRule ruleGroup = promRule \<lparr> Groups := Groups promRule @ [ruleGroup] \<rparr>"

definition callSyncPrometheusRule :: "ConfigSyncer \<Rightarrow> PrometheusRule \<Rightarrow> World \<Rightarrow> string option \<times> World" where
  \<comment> \<open>\<^verbatim>\<open>d.operatorCRDManager.SyncPrometheusRule(promRule)\<close>: the call is recorded, its
     error returned\<close>
  "callSyncPrometheusRule d promRule w =
     (SyncPrometheusRule (operatorCRDManager d) promRule, w \<lparr> synced := synced w @ [promRule] \<rparr>)"

subsection \<open>The metric rule publisher (lines 199-264)\<close>

definition projectRuleGroup :: "ConfigSyncer \<Rightarrow> Pkg \<Rightarrow> string \<Rightarrow> ProjectAlertRule list \<Rightarrow> RuleGroup" where
  \<comment> \<open>lines 217-224: the rule group of one group id after the loop over its rules\<close>
  "projectRuleGroup d p groupID alertRules =
     foldl (\<lambda>ruleGroup alertRule.
        (case ProjectAlertRuleSpec.MetricRule (ProjectAlertRule.Spec alertRule) of
           Some m \<Rightarrow>
             (let ruleID = GetRuleID p (ProjectAlertRuleSpec.GroupName (ProjectAlertRule.Spec alertRule))
                             (ProjectAlertRule.Name alertRule);
                  promRule = Metric2Rule p groupID ruleID
                    (Severity (ProjectAlertRuleSpec.CommonRuleField (ProjectAlertRule.Spec alertRule)))
                    (DisplayName (ProjectAlertRuleSpec.CommonRuleField (ProjectAlertRule.Spec alertRule)))
                    (clusterName d) m
              in AddRule ruleGroup promRule)
         | None \<Rightarrow> ruleGroup))
       (GetRuleGroup groupID) alertRules"

definition projectOperatorGroups ::
  "ConfigSyncer \<Rightarrow> Pkg \<Rightarrow> (string \<times> ProjectAlertRule list) list \<Rightarrow> bool \<times> PrometheusRule \<Rightarrow> string list
     \<Rightarrow> bool \<times> PrometheusRule" where
  \<comment> \<open>lines 213-226: the loop over the group ids, on \<^verbatim>\<open>enabled\<close> and \<^verbatim>\<open>promRule\<close>\<close>
  "projectOperatorGroups d p groupRules acc groupIDs =
     foldl (\<lambda>(enabled, promRule) groupID.
        (True, AddRuleGroup promRule (projectRuleGroup d p groupID (index groupRules groupID))))
       acc groupIDs"

definition projectOperatorStep ::
  "ConfigSyncer \<Rightarrow> Pkg \<Rightarrow> (string \<times> (string \<times> ProjectAlertRule list) list) list \<Rightarrow> string \<Rightarrow> World
     \<Rightarrow> string option \<times> World" where
  \<comment> \<open>lines 201-234: the body of the loop over the project ids\<close>
  "projectOperatorStep d p projectGroups projectID w =
     (let groupRules = index projectGroups projectID;
          projectName = snd (ref_Parse p projectID);
          namespace = snd (ProjectMonitoringInfo p projectName);
          promRule = GetDefaultPrometheusRule (operatorCRDManager d) namespace projectName;
          groupIDs = sort_Strings (range_keys groupRules);
          (enabled, promRule) = projectOperatorGroups d p groupRules (False, promRule) groupIDs
      in if \<not> enabled then (None, w)
         else callSyncPrometheusRule d promRule w)"

definition addProjectAlert2Operator ::
  "ConfigSyncer \<Rightarrow> Pkg \<Rightarrow> (string \<times> (string \<times> ProjectAlertRule list) list) list \<Rightarrow> string list \<Rightarrow> World
     \<Rightarrow> string option \<times> World" where
  "addProjectAlert2Operator d p projectGroups keys w =
     range_world (projectOperatorStep d p projectGroups) keys w"

definition clusterRuleGroup :: "ConfigSyncer \<Rightarrow> Pkg \<Rightarrow> string \<Rightarrow> ClusterAlertRule list \<Rightarrow> RuleGroup" where
  \<comment> \<open>lines 247-255: the rule group of one group id after the loop over its rules\<close>
  "clusterRuleGroup d p groupID alertRules =
     foldl (\<lambda>ruleGroup alertRule.
        (case ClusterAlertRuleSpec.MetricRule (ClusterAlertRule.Spec alertRule) of
           Some m \<Rightarrow>
             (let ruleID = GetRuleID p (ClusterAlertRuleSpec.GroupName (ClusterAlertRule.Spec alertRule))
                             (ClusterAlertRule.Name alertRule);
                  promRule = Metric2Rule p groupID ruleID
                    (Severity (ClusterAlertRuleSpec.CommonRuleField (ClusterAlertRule.Spec alertRule)))
                    (DisplayName (ClusterAlertRuleSpec.CommonRuleField (ClusterAlertRule.Spec alertRule)))
                    (clusterName d) m
              in AddRule ruleGroup promRule)
         | None \<Rightarrow> ruleGroup))
       (GetRuleGroup groupID) alertRules"

definition clusterOperatorGroups ::
  "ConfigSyncer \<Rightarrow> Pkg \<Rightarrow> (string \<times> ClusterAlertRule list) list \<Rightarrow> bool \<times> PrometheusRule \<Rightarrow> string list
     \<Rightarrow> bool \<times> PrometheusRule" where
  \<comment> \<open>lines 245-257: the loop over the group ids, on \<^verbatim>\<open>enabled\<close> and \<^verbatim>\<open>promRule\<close>\<close>
  "clusterOperatorGroups d p groupRules acc keys =
     foldl (\<lambda>(enabled, promRule) groupID.
        (True, AddRuleGroup promRule (clusterRuleGroup d p groupID (index groupRules groupID))))
       acc keys"

definition addClusterAlert2Operator ::
  "ConfigSyncer \<Rightarrow> Pkg \<Rightarrow> (string \<times> ClusterAlertRule list) list \<Rightarrow> string list \<Rightarrow> World
     \<Rightarrow> string option \<times> World" where
  "addClusterAlert2Operator d p groupRules keys w =
     (let namespace = snd (ClusterMonitoringInfo p);
          promRule = GetDefaultPrometheusRule (operatorCRDManager d) namespace (clusterName d);
          (enabled, promRule) = clusterOperatorGroups d p groupRules (False, promRule) keys
      in if \<not> enabled then (None, w)
         else callSyncPrometheusRule d promRule w)"

fun includeProjectMetrics :: "ProjectAlertRule list \<Rightarrow> bool" where
  \<comment> \<open>lines 459-466; no function of the file calls it\<close>
  "includeProjectMetrics [] = False"
| "includeProjectMetrics (v # projectAlerts) =
     (if ProjectAlertRuleSpec.MetricRule (ProjectAlertRule.Spec v) \<noteq> None then True
      else includeProjectMetrics projectAlerts)"

subsection \<open>The config assembler (lines 266-356)\<close>

definition projectRuleStep :: "Pkg \<Rightarrow> string \<Rightarrow> Route \<Rightarrow> ProjectAlertRule \<Rightarrow> Route" where
  \<comment> \<open>lines 296-306: the body of the loop over the rules of a group, on the route \<^verbatim>\<open>r1\<close>\<close>
  "projectRuleStep p groupID r1 alert =
     (if AlertState (ProjectAlertRule.Status alert) = ''inactive'' then r1
      else if PodRule (ProjectAlertRule.Spec alert) \<noteq> None
              \<or> WorkloadRule (ProjectAlertRule.Spec alert) \<noteq> None
              \<or> ProjectAlertRuleSpec.MetricRule (ProjectAlertRule.Spec alert) \<noteq> None
      then (let ruleID = GetRuleID p groupID (ProjectAlertRule.Name alert)
            in addRule ruleID r1 (ProjectAlertRuleSpec.CommonRuleField (ProjectAlertRule.Spec alert)))
      else r1)"

definition projectGroupStep ::
  "ConfigSyncer \<Rightarrow> Pkg \<Rightarrow> Notifier list \<Rightarrow> string \<Rightarrow> (string \<times> ProjectAlertRule list) list
     \<Rightarrow> Config \<Rightarrow> string \<Rightarrow> string + Config" where
  \<comment> \<open>lines 275-309: the body of the loop over the group ids of a project\<close>
  "projectGroupStep d p notifiers projectName groups config groupID =
     (let rules = index groups groupID;
          groupName = snd (ref_Parse p groupID);
          (group, err) = projectAlertGroupLister d projectName groupName
      in case (case err of None \<Rightarrow> None | Some e \<Rightarrow> if \<not> IsNotFound e then Some e else None) of
           Some e \<Rightarrow>
             Inl (''get project alert group '' @ projectName @ '':'' @ groupName @ '' failed, '' @ Error e)
         | None \<Rightarrow>
            (case group of
               None \<Rightarrow> Inr config
             | Some g \<Rightarrow>
                (let receiver = \<lparr> Receiver.Name = groupID, PagerdutyConfigs = [], WebhookConfigs = [],
                                  SlackConfigs = [], EmailConfigs = [] \<rparr>;
                     (receiver, exist) =
                        addRecipients d notifiers receiver
                          (ProjectGroupSpec.Recipients (ProjectAlertGroup.Spec g))
                 in if exist then
                      (let config = config \<lparr> Receivers := Receivers config @ [receiver] \<rparr>;
                           r1 = newRoute (Map.empty(''group_id'' \<mapsto> groupID))
                                  defaultGroupWait defaultRepeatInterval defaultGroupInterval;
                           r1 = foldl (projectRuleStep p groupID) r1 rules
                       in Inr (config \<lparr> Route := appendRoute (Route config) r1 \<rparr>))
                    else Inr config)))"

definition projectStep ::
  "ConfigSyncer \<Rightarrow> Pkg \<Rightarrow> Notifier list \<Rightarrow> (string \<times> (string \<times> ProjectAlertRule list) list) list
     \<Rightarrow> Config \<Rightarrow> string \<Rightarrow> string + Config" where
  \<comment> \<open>lines 267-310: the body of the loop over the project names\<close>
  "projectStep d p notifiers projectGroups config projectName =
     (let groups = index projectGroups projectName;
          groupIDs = sort_Strings (range_keys groups)
      in range_err (projectGroupStep d p notifiers projectName groups) config groupIDs)"

definition addProjectAlert2Config ::
  "ConfigSyncer \<Rightarrow> Pkg \<Rightarrow> Config \<Rightarrow> (string \<times> (string \<times> ProjectAlertRule list) list) list \<Rightarrow> string list
     \<Rightarrow> Notifier list \<Rightarrow> string + Config" where
  \<comment> \<open>the error returned, or the configuration as the call leaves it\<close>
  "addProjectAlert2Config d p config projectGroups keys notifiers =
     range_err (projectStep d p notifiers projectGroups) config keys"

definition clusterRuleStep :: "Pkg \<Rightarrow> string \<Rightarrow> Route \<Rightarrow> ClusterAlertRule \<Rightarrow> Route" where
  \<comment> \<open>lines 335-349: the body of the loop over the rules of a group, on the route \<^verbatim>\<open>r1\<close>\<close>
  "clusterRuleStep p groupID r1 alert =
     (if AlertState (ClusterAlertRule.Status alert) = ''inactive'' then r1
      else
        (let ruleID = GetRuleID p groupID (ClusterAlertRule.Name alert);
             r1 = (if EventRule (ClusterAlertRule.Spec alert) \<noteq> None
                   then (let r2 = newRoute (Map.empty(''alert_type'' \<mapsto> ''event'', ''rule_id'' \<mapsto> ruleID))
                                    defaultGroupWait defaultRepeatInterval eventGroupInterval
                         in appendRoute r1 r2)
                   else r1)
         in if ClusterAlertRuleSpec.MetricRule (ClusterAlertRule.Spec alert) \<noteq> None
               \<or> SystemServiceRule (ClusterAlertRule.Spec alert) \<noteq> None
               \<or> NodeRule (ClusterAlertRule.Spec alert) \<noteq> None
            then addRule ruleID r1 (ClusterAlertRuleSpec.CommonRuleField (ClusterAlertRule.Spec alert))
            else r1))"

definition clusterGroupStep ::
  "ConfigSyncer \<Rightarrow> Pkg \<Rightarrow> Notifier list \<Rightarrow> (string \<times> ClusterAlertRule list) list
     \<Rightarrow> Config \<Rightarrow> string \<Rightarrow> string + Config" where
  \<comment> \<open>lines 314-354: the body of the loop over the group ids\<close>
  "clusterGroupStep d p notifiers alerts config groupID =
     (let groupRules = index alerts groupID;
          groupName = snd (ref_Parse p groupID);
          receiver = \<lparr> Receiver.Name = groupID, PagerdutyConfigs = [], WebhookConfigs = [],
                       SlackConfigs = [], EmailConfigs = [] \<rparr>;
          (group, err) = clusterAlertGroupLister d (clusterName d) groupName
      in case (case err of None \<Rightarrow> None | Some e \<Rightarrow> if \<not> IsNotFound e then Some e else None) of
           Some e \<Rightarrow>
             Inl (''get cluster alert group '' @ clusterName d @ '':'' @ groupName @ '' failed, '' @ Error e)
         | None \<Rightarrow>
            (case group of
               None \<Rightarrow> Inr config
             | Some g \<Rightarrow>
                (let (receiver, exist) =
                        addRecipients d notifiers receiver
                          (ClusterGroupSpec.Recipients (ClusterAlertGroup.Spec g))
                 in if exist then
                      (let config = config \<lparr> Receivers := Receivers config @ [receiver] \<rparr>;
                           r1 = newRoute (Map.empty(''group_id'' \<mapsto> groupID))
                                  defaultGroupWait defaultRepeatInterval defaultGroupInterval;
                           r1 = foldl (clusterRuleStep p groupID) r1 groupRules
                       in Inr (config \<lparr> Route := appendRoute (Route config) r1 \<rparr>))
                    else Inr config)))"

definition addClusterAlert2Config ::
  "ConfigSyncer \<Rightarrow> Pkg \<Rightarrow> Config \<Rightarrow> (string \<times> ClusterAlertRule list) list \<Rightarrow> string list
     \<Rightarrow> Notifier list \<Rightarrow> string + Config" where
  \<comment> \<open>the error returned, or the configuration as the call leaves it\<close>
  "addClusterAlert2Config d p config alerts keys notifiers =
     range_err (clusterGroupStep d p notifiers alerts) config keys"

subsection \<open>The reconcile (lines 83-186)\<close>

definition cAlertsMap_step ::
  "(string \<times> ClusterAlertRule list) list \<Rightarrow> ClusterAlertRule \<Rightarrow> (string \<times> ClusterAlertRule list) list" where
  \<comment> \<open>lines 112-114\<close>
  "cAlertsMap_step m alert =
     (if AlertState (ClusterAlertRule.Status alert) \<noteq> ''inactive''
      then (let g = ClusterAlertRuleSpec.GroupName (ClusterAlertRule.Spec alert)
            in AList.update g (index m g @ [alert]) m)
      else m)"

definition pAlertsMap_step ::
  "ConfigSyncer \<Rightarrow> Pkg \<Rightarrow> (string \<times> (string \<times> ProjectAlertRule list) list) list \<Rightarrow> ProjectAlertRule
     \<Rightarrow> (string \<times> (string \<times> ProjectAlertRule list) list) list" where
  \<comment> \<open>lines 125-133\<close>
  "pAlertsMap_step d p m alert =
     (if ObjectInCluster p (clusterName d) alert then
        (if AlertState (ProjectAlertRule.Status alert) \<noteq> ''inactive'' then
           (let projectName = snd (ref_Parse p (ProjectName (ProjectAlertRule.Spec alert)));
                m = (if \<not> has_key m projectName then AList.update projectName [] m else m);
                g = ProjectAlertRuleSpec.GroupName (ProjectAlertRule.Spec alert);
                inner = index m projectName
            in AList.update projectName (AList.update g (index inner g @ [alert]) inner) m)
         else m)
      else m)"

definition secretBytes :: "Secret \<Rightarrow> string \<Rightarrow> string" where
  \<comment> \<open>\<^verbatim>\<open>string(configSecret.Data[key])\<close>: a nil map and a missing key read as no bytes\<close>
  "secretBytes configSecret k =
     (case Data configSecret of None \<Rightarrow> [] | Some m \<Rightarrow> (case m k of None \<Rightarrow> [] | Some b \<Rightarrow> b))"

definition sync_publish :: "ConfigSyncer \<Rightarrow> Pkg \<Rightarrow> string \<Rightarrow> World \<Rightarrow> outcome \<times> World" where
  \<comment> \<open>lines 164-185, from the serialized document on. The copy that is updated keeps the
     metadata of the secret that was read, so the store changes under the key read.\<close>
  "sync_publish d p data w =
     (let (altermanagerAppName, altermanagerAppNamespace) = ClusterAlertManagerInfo p;
          secretName = GetAlertManagerSecretName p altermanagerAppName
      in case secrets w (altermanagerAppNamespace, secretName) of
           Inl err \<Rightarrow> (Err (Wrapf err ''Get secrets''), w)
         | Inr configSecret \<Rightarrow>
            (if secretBytes configSecret ''alertmanager.yaml'' \<noteq> data then
               (case Data configSecret of
                  None \<Rightarrow> (Panic, w)
                | Some m \<Rightarrow>
                   (let newConfigSecret = configSecret \<lparr> Data :=
                          Some (m(''alertmanager.yaml'' \<mapsto> data, ''notification.tmpl'' \<mapsto> NotificationTmpl p)) \<rparr>;
                        w = w \<lparr> updated := updated w @ [newConfigSecret] \<rparr>
                    in case secretsUpdate d newConfigSecret of
                         Some err \<Rightarrow> (Err (Wrapf err ''Update secrets''), w)
                       | None \<Rightarrow>
                          (Nil, w \<lparr> secrets := (secrets w)
                                      ((altermanagerAppNamespace, secretName) := Inr newConfigSecret) \<rparr>)))
             else (Nil, w)))"

definition sync_build ::
  "ConfigSyncer \<Rightarrow> Pkg \<Rightarrow> Notifier list \<Rightarrow> ClusterAlertRule list \<Rightarrow> ProjectAlertRule list \<Rightarrow> World
     \<Rightarrow> outcome \<times> World" where
  \<comment> \<open>lines 109-162, from the three listings on\<close>
  "sync_build d p notifiers clusterAlertRules projectAlertRules w =
     (let cAlertsMap = foldl cAlertsMap_step [] clusterAlertRules;
          cAlertsKey = sort_Strings (range_keys cAlertsMap);
          pAlertsMap = foldl (pAlertsMap_step d p) [] projectAlertRules;
          pAlertsKey = sort_Strings (range_keys pAlertsMap)
      in case addClusterAlert2Operator d p cAlertsMap cAlertsKey w of
           (Some err, w) \<Rightarrow> (Err err, w)
         | (None, w) \<Rightarrow>
        (case addProjectAlert2Operator d p pAlertsMap pAlertsKey w of
           (Some err, w) \<Rightarrow> (Err err, w)
         | (None, w) \<Rightarrow>
        (let config = GetAlertManagerDefaultConfig p;
             config = config \<lparr> Global := (Global config) \<lparr> PagerdutyURL :=
                         ''https://events.pagerduty.com/generic/2010-04-15/create_event.json'' \<rparr> \<rparr>
         in case addClusterAlert2Config d p config cAlertsMap cAlertsKey notifiers of
              Inl err \<Rightarrow> (Err err, w)
            | Inr config \<Rightarrow>
           (case addProjectAlert2Config d p config pAlertsMap pAlertsKey notifiers of
              Inl err \<Rightarrow> (Err err, w)
            | Inr config \<Rightarrow>
           (case yaml_Marshal p config of
              Inl err \<Rightarrow> (Err (Wrapf err ''Marshal secrets''), w)
            | Inr data \<Rightarrow> sync_publish d p data w)))))"

definition callList :: "lister \<Rightarrow> World \<Rightarrow> World" where
  \<comment> \<open>a call of a lister's \<^verbatim>\<open>List\<close> is recorded\<close>
  "callList l w = w \<lparr> listed := listed w @ [l] \<rparr>"

definition sync :: "ConfigSyncer \<Rightarrow> Pkg \<Rightarrow> World \<Rightarrow> outcome \<times> World" where
  "sync d p w =
     (if IsDeploy (alertManager d) = False then (Nil, w)
      else
        (case GetAlertManagerEndpoint (alertManager d) of
           Inl err \<Rightarrow> (Err err, w)
         | Inr _ \<Rightarrow>
        (let w = callList NotifierLister w in
         case notifierLister d of
           Inl err \<Rightarrow> (Err (Wrapf err ''List notifiers''), w)
         | Inr notifiers \<Rightarrow>
        (let w = callList ClusterAlertRuleLister w in
         case clusterAlertRuleLister d of
           Inl err \<Rightarrow> (Err (Wrapf err ''List cluster alert rules''), w)
         | Inr clusterAlertRules \<Rightarrow>
        (let w = callList ProjectAlertRuleLister w in
         case projectAlertRuleLister d of
           Inl err \<Rightarrow> (Err (Wrapf err ''List project alert rules''), w)
         | Inr projectAlertRules \<Rightarrow>
             sync_build d p notifiers clusterAlertRules projectAlertRules w)))))"

subsection \<open>Notions used in the statements\<close>

definition resolvable :: "ConfigSyncer \<Rightarrow> Notifier list \<Rightarrow> Recipient \<Rightarrow> bool" where
  \<comment> \<open>a recipient resolves to a known notifier: it names one, and \<open>getNotifier\<close> finds it\<close>
  "resolvable d notifiers r =
     (NotifierName r \<noteq> [] \<and> getNotifier d (NotifierName r) notifiers \<noteq> None)"

definition clusterMetricRules :: "ConfigSyncer \<Rightarrow> Pkg \<Rightarrow> string \<Rightarrow> ClusterAlertRule list \<Rightarrow> Rule list" where
  \<comment> \<open>one rule expression for each rule of the list that has a metric payload, in order\<close>
  "clusterMetricRules d p groupID alertRules =
     concat (map (\<lambda>alertRule.
       (case ClusterAlertRuleSpec.MetricRule (ClusterAlertRule.Spec alertRule) of
          None \<Rightarrow> []
        | Some m \<Rightarrow>
            [Metric2Rule p groupID
               (GetRuleID p (ClusterAlertRuleSpec.GroupName (ClusterAlertRule.Spec alertRule))
                  (ClusterAlertRule.Name alertRule))
               (Severity (ClusterAlertRuleSpec.CommonRuleField (ClusterAlertRule.Spec alertRule)))
               (DisplayName (ClusterAlertRuleSpec.CommonRuleField (ClusterAlertRule.Spec alertRule)))
               (clusterName d) m])) alertRules)"

definition projectMetricRules :: "ConfigSyncer \<Rightarrow> Pkg \<Rightarrow> string \<Rightarrow> ProjectAlertRule list \<Rightarrow> Rule list" where
  \<comment> \<open>the same for the rules of a project\<close>
  "projectMetricRules d p groupID alertRules =
     concat (map (\<lambda>alertRule.
       (case ProjectAlertRuleSpec.MetricRule (ProjectAlertRule.Spec alertRule) of
          None \<Rightarrow> []
        | Some m \<Rightarrow>
            [Metric2Rule p groupID
               (GetRuleID p (ProjectAlertRuleSpec.GroupName (ProjectAlertRule.Spec alertRule))
                  (ProjectAlertRule.Name alertRule))
               (Severity (ProjectAlertRuleSpec.CommonRuleField (ProjectAlertRule.Spec alertRule)))
               (DisplayName (ProjectAlertRuleSpec.CommonRuleField (ProjectAlertRule.Spec alertRule)))
               (clusterName d) m])) alertRules)"

definition cluster_active :: "ClusterAlertRule \<Rightarrow> bool" where
  \<comment> \<open>the test of lines 112 and 336: the state is not the string \<^verbatim>\<open>inactive\<close>\<close>
  "cluster_active alert = (AlertState (ClusterAlertRule.Status alert) \<noteq> ''inactive'')"

definition project_active :: "ProjectAlertRule \<Rightarrow> bool" where
  \<comment> \<open>the test of lines 126 and 297\<close>
  "project_active alert = (AlertState (ProjectAlertRule.Status alert) \<noteq> ''inactive'')"

subsection \<open>Example objects\<close>

definition ex_notFound :: APIError where
  "ex_notFound = \<lparr> Error = ''not found'', IsNotFound = True \<rparr>"

definition ex_timeout :: APIError where
  "ex_timeout = \<lparr> Error = ''timeout'', IsNotFound = False \<rparr>"

definition ex_pkg :: Pkg where
  "ex_pkg = \<lparr>
     ref_Parse = (\<lambda>s. ([], s)),
     GetRuleID = (\<lambda>g n. g @ ''_'' @ n),
     Metric2Rule = (\<lambda>g r sev dn c m. r @ '' '' @ m),
     ObjectInCluster = (\<lambda>c a. True),
     ClusterMonitoringInfo = (''cluster-monitoring'', ''cattle-prometheus''),
     ProjectMonitoringInfo = (\<lambda>n. (''project-monitoring'', ''cattle-prometheus-'' @ n)),
     ClusterAlertManagerInfo = (''cluster-alerting'', ''cattle-prometheus''),
     GetAlertManagerSecretName = (\<lambda>n. ''alertmanager-'' @ n),
     GetAlertManagerDefaultConfig =
       \<lparr> Global = \<lparr> PagerdutyURL = [] \<rparr>, Receivers = [],
         Route = MkRoute ''rancherlabs'' Map.empty None None None [] \<rparr>,
     yaml_Marshal = (\<lambda>c. Inr (concat (map Receiver.Name (Receivers c)))),
     NotificationTmpl = ''tmpl'' \<rparr>"

definition ex_comm :: "goint \<Rightarrow> goint \<Rightarrow> goint \<Rightarrow> CommonRuleField" where
  "ex_comm gw gi ri = \<lparr> DisplayName = ''rule'', Severity = ''critical'',
     GroupWaitSeconds = gw, GroupIntervalSeconds = gi, RepeatIntervalSeconds = ri \<rparr>"

definition ex_event :: ClusterAlertRule where
  \<comment> \<open>an active event rule \<^verbatim>\<open>r1\<close> of the cluster group \<^verbatim>\<open>g1\<close>\<close>
  "ex_event = \<lparr> ClusterAlertRule.Name = ''r1'',
     Spec = \<lparr> ClusterAlertRuleSpec.CommonRuleField = ex_comm 0 0 0, GroupName = ''g1'',
              SystemServiceRule = None, NodeRule = None, EventRule = Some (), MetricRule = None \<rparr>,
     Status = \<lparr> AlertState = ''active'' \<rparr> \<rparr>"

definition ex_metric :: "string \<Rightarrow> string \<Rightarrow> CommonRuleField \<Rightarrow> ClusterAlertRule" where
  \<comment> \<open>a metric rule of the cluster group \<^verbatim>\<open>g1\<close>, with a name, a state and timing fields\<close>
  "ex_metric name state comm = \<lparr> ClusterAlertRule.Name = name,
     Spec = \<lparr> ClusterAlertRuleSpec.CommonRuleField = comm, GroupName = ''g1'',
              SystemServiceRule = None, NodeRule = None, EventRule = None, MetricRule = Some ''up == 0'' \<rparr>,
     Status = \<lparr> AlertState = state \<rparr> \<rparr>"

definition ex_slack :: Notifier where
  "ex_slack = \<lparr> Notifier.Name = ''n1'',
     Spec = \<lparr> PagerdutyConfig = None, WebhookConfig = None,
              SlackConfig = Some \<lparr> v3_SlackConfig.DefaultRecipient = ''#alert'', URL = ''https://hooks'' \<rparr>,
              SMTPConfig = None \<rparr> \<rparr>"

definition ex_group :: "string \<Rightarrow> ClusterAlertGroup" where
  \<comment> \<open>a cluster group with one recipient, which names the notifier given\<close>
  "ex_group notifierName =
     \<lparr> ClusterAlertGroup.Spec = \<lparr> ClusterGroupSpec.Recipients =
         [\<lparr> NotifierName = notifierName, Recipient = [] \<rparr>] \<rparr> \<rparr>"

definition ex_syncer :: "ClusterAlertRule list \<Rightarrow> ConfigSyncer" where
  \<comment> \<open>the cluster \<^verbatim>\<open>c1\<close> with the slack notifier \<^verbatim>\<open>n1\<close>, the group \<^verbatim>\<open>g1\<close> that names it,
     the group \<^verbatim>\<open>g2\<close> whose recipient names an unknown notifier, and the cluster rules given\<close>
  "ex_syncer rules = \<lparr>
     secretsUpdate = (\<lambda>s. None),
     projectAlertGroupLister = (\<lambda>ns name. (None, Some ex_notFound)),
     clusterAlertGroupLister = (\<lambda>ns name.
        if name = ''g1'' then (Some (ex_group ''c1:n1''), None)
        else if name = ''g2'' then (Some (ex_group ''c1:gone''), None)
        else if name = ''g3'' then (None, Some ex_timeout)
        else (None, Some ex_notFound)),
     projectAlertRuleLister = Inr [],
     clusterAlertRuleLister = Inr rules,
     notifierLister = Inr [ex_slack],
     clusterName = ''c1'',
     alertManager = \<lparr> IsDeploy = True, GetAlertManagerEndpoint = Inr ''http://alertmanager:9093'' \<rparr>,
     operatorCRDManager = \<lparr>
        GetDefaultPrometheusRule = (\<lambda>ns n. \<lparr> PrometheusRule.Namespace = ns, Name = n, Groups = [] \<rparr>),
        SyncPrometheusRule = (\<lambda>r. None) \<rparr> \<rparr>"

definition ex_world :: World where
  \<comment> \<open>nothing called yet; every secret exists, with an empty data map\<close>
  "ex_world = \<lparr> secrets = (\<lambda>k. Inr \<lparr> Data = Some Map.empty \<rparr>), listed = [], synced = [], updated = [] \<rparr>"

definition ex_workload :: ProjectAlertRule where
  \<comment> \<open>an active workload rule \<^verbatim>\<open>w1\<close> of a project group, with timing fields\<close>
  "ex_workload = \<lparr> ProjectAlertRule.Namespace = ''p1'', Name = ''w1'',
     Spec = \<lparr> ProjectAlertRuleSpec.CommonRuleField = ex_comm 30 180 3600, ProjectName = ''c1:p1'',
              GroupName = ''p1:g1'', PodRule = None, WorkloadRule = Some (), MetricRule = None \<rparr>,
     Status = \<lparr> AlertState = ''active'' \<rparr> \<rparr>"

definition clusterArtifact ::
  "ConfigSyncer \<Rightarrow> Pkg \<Rightarrow> (string \<times> ClusterAlertRule list) list \<Rightarrow> string list \<Rightarrow> PrometheusRule" where
  \<comment> \<open>the cluster's default artifact, with one more rule group for each key, in order: the
     group is named after the key and holds the rule expressions of the key's metric rules\<close>
  "clusterArtifact d p groupRules keys =
     (let promRule = GetDefaultPrometheusRule (operatorCRDManager d)
                       (snd (ClusterMonitoringInfo p)) (clusterName d)
      in promRule \<lparr> Groups := Groups promRule @
           map (\<lambda>groupID. \<lparr> RuleGroup.Name = groupID,
                             Rules = clusterMetricRules d p groupID (index groupRules groupID) \<rparr>) keys \<rparr>)"

definition projectArtifact ::
  "ConfigSyncer \<Rightarrow> Pkg \<Rightarrow> (string \<times> (string \<times> ProjectAlertRule list) list) list \<Rightarrow> string \<Rightarrow> PrometheusRule" where
  \<comment> \<open>the same for a project: one more rule group for each group id of the project, sorted\<close>
  "projectArtifact d p projectGroups projectID =
     (let groupRules = index projectGroups projectID;
          projectName = snd (ref_Parse p projectID);
          promRule = GetDefaultPrometheusRule (operatorCRDManager d)
                       (snd (ProjectMonitoringInfo p projectName)) projectName
      in promRule \<lparr> Groups := Groups promRule @
           map (\<lambda>groupID. \<lparr> RuleGroup.Name = groupID,
                             Rules = projectMetricRules d p groupID (index groupRules groupID) \<rparr>)
             (sort (map fst groupRules)) \<rparr>)"

definition ex_project_groups :: "(string \<times> (string \<times> ProjectAlertRule list) list) list" where
  \<comment> \<open>the partition of two projects: \<^verbatim>\<open>p1\<close> with the group of the workload rule, and
     \<^verbatim>\<open>p2\<close> with no group\<close>
  "ex_project_groups = [(''p1'', [(''p1:g1'', [ex_workload])]), (''p2'', [])]"

definition ex_metric_g2 :: ClusterAlertRule where
  \<comment> \<open>an active metric rule \<^verbatim>\<open>r2\<close> of the cluster group \<^verbatim>\<open>g2\<close>\<close>
  "ex_metric_g2 = \<lparr> ClusterAlertRule.Name = ''r2'',
     Spec = \<lparr> ClusterAlertRuleSpec.CommonRuleField = ex_comm 30 10 3600, GroupName = ''g2'',
              SystemServiceRule = None, NodeRule = None, EventRule = None, MetricRule = Some ''up == 0'' \<rparr>,
     Status = \<lparr> AlertState = ''active'' \<rparr> \<rparr>"

definition ex_project_group :: ProjectAlertGroup where
  \<comment> \<open>a project group whose one recipient names an unknown notifier\<close>
  "ex_project_group =
     \<lparr> ProjectAlertGroup.Spec = \<lparr> ProjectGroupSpec.Recipients =
         [\<lparr> NotifierName = ''c1:gone'', Recipient = [] \<rparr>] \<rparr> \<rparr>"

definition ex_syncer_p :: "ClusterAlertRule list \<Rightarrow> ConfigSyncer" where
  \<comment> \<open>as \<open>ex_syncer\<close>, and every project group is found and is \<open>ex_project_group\<close>\<close>
  "ex_syncer_p rules =
     (ex_syncer rules) \<lparr> projectAlertGroupLister := (\<lambda>ns name. (Some ex_project_group, None)) \<rparr>"




definition touch :: "lister list \<Rightarrow> PrometheusRule list \<Rightarrow> World \<Rightarrow> World" where
  \<comment> \<open>the world after more listings and more artifacts handed to the rule-CR store\<close>
  "touch ls xs w = w \<lparr> listed := listed w @ ls, synced := synced w @ xs \<rparr>"

definition secretKey :: "Pkg \<Rightarrow> string \<times> string" where
  \<comment> \<open>the namespace and the name of the secret of lines 164-167\<close>
  "secretKey p =
     (snd (ClusterAlertManagerInfo p), GetAlertManagerSecretName p (fst (ClusterAlertManagerInfo p)))"

definition ex_world1 :: World where
  \<comment> \<open>the world after one reconcile of \<open>ex_syncer [ex_event]\<close> from \<open>ex_world\<close>\<close>
  "ex_world1 =
     \<lparr> secrets = (secrets ex_world)((''cattle-prometheus'', ''alertmanager-cluster-alerting'') :=
          Inr \<lparr> Data = Some (Map.empty(''alertmanager.yaml'' \<mapsto> ''g1'', ''notification.tmpl'' \<mapsto> ''tmpl'')) \<rparr>),
       listed = [NotifierLister, ClusterAlertRuleLister, ProjectAlertRuleLister],
       synced = [\<lparr> PrometheusRule.Namespace = ''cattle-prometheus'', Name = ''c1'',
                   Groups = [\<lparr> RuleGroup.Name = ''g1'', Rules = [] \<rparr>] \<rparr>],
       updated = [\<lparr> Data = Some (Map.empty(''alertmanager.yaml'' \<mapsto> ''g1'', ''notification.tmpl'' \<mapsto> ''tmpl'')) \<rparr>] \<rparr>"


definition ex_r1 :: ClusterAlertRule where
  \<comment> \<open>the active metric rule \<^verbatim>\<open>r1\<close> of the cluster group \<^verbatim>\<open>g1\<close>, with a group-wait of 1 second\<close>
  "ex_r1 = ex_metric ''r1'' ''active'' (ex_comm 1 10 10)"

definition ex_r2 :: ClusterAlertRule where
  \<comment> \<open>the active metric rule \<^verbatim>\<open>r2\<close> of the same group, with a group-wait of 2 seconds\<close>
  "ex_r2 = ex_metric ''r2'' ''active'' (ex_comm 2 10 10)"

definition ex_yaml :: "Config \<Rightarrow> string" where
  \<comment> \<open>a serializer for the examples that, like YAML, writes sequences in their order: the
     names of the receivers, then each route under the root with the rule ids that its
     children match on\<close>
  "ex_yaml c =
     concat (map (\<lambda>r. Receiver.Name r @ '';'') (Receivers c)) @
     concat (map (\<lambda>g. Receiver g @ '':'' @
                    concat (map (\<lambda>r. (case Match r ''rule_id'' of None \<Rightarrow> ''-'' | Some v \<Rightarrow> v) @ '','')
                             (Routes g)) @ '';'')
               (Routes (Route c)))"

definition ex_pkg_yaml :: Pkg where
  \<comment> \<open>\<open>ex_pkg\<close> with that serializer\<close>
  "ex_pkg_yaml = ex_pkg \<lparr> yaml_Marshal := (\<lambda>c. Inr (ex_yaml c)) \<rparr>"

definition ex_metric_g4 :: ClusterAlertRule where
  \<comment> \<open>an active metric rule \<^verbatim>\<open>r4\<close> of the cluster group \<^verbatim>\<open>g4\<close>, which is not found\<close>
  "ex_metric_g4 = \<lparr> ClusterAlertRule.Name = ''r4'',
     Spec = \<lparr> ClusterAlertRuleSpec.CommonRuleField = ex_comm 30 10 3600, GroupName = ''g4'',
              SystemServiceRule = None, NodeRule = None, EventRule = None, MetricRule = Some ''up == 0'' \<rparr>,
     Status = \<lparr> AlertState = ''active'' \<rparr> \<rparr>"

definition ex_pmetric :: ProjectAlertRule where
  \<comment> \<open>an active metric rule \<^verbatim>\<open>m1\<close> of the group \<^verbatim>\<open>p1:g1\<close> of the project \<^verbatim>\<open>p1\<close>\<close>
  "ex_pmetric = \<lparr> ProjectAlertRule.Namespace = ''p1'', Name = ''m1'',
     Spec = \<lparr> ProjectAlertRuleSpec.CommonRuleField = ex_comm 30 180 3600, ProjectName = ''p1'',
              GroupName = ''p1:g1'', PodRule = None, WorkloadRule = None, MetricRule = Some ''up == 0'' \<rparr>,
     Status = \<lparr> AlertState = ''active'' \<rparr> \<rparr>"

definition ex_project_groups_m :: "(string \<times> (string \<times> ProjectAlertRule list) list) list" where
  \<comment> \<open>the partition of the project \<^verbatim>\<open>p1\<close> with the group of that metric rule\<close>
  "ex_project_groups_m = [(''p1'', [(''p1:g1'', [ex_pmetric])])]"

definition clusterGroups :: "ClusterAlertRule list \<Rightarrow> (string \<times> ClusterAlertRule list) list" where
  \<comment> \<open>\<^verbatim>\<open>cAlertsMap\<close> of lines 109-115\<close>
  "clusterGroups cs = foldl cAlertsMap_step [] cs"

definition clusterKeys :: "ClusterAlertRule list \<Rightarrow> string list" where
  \<comment> \<open>\<^verbatim>\<open>cAlertsKey\<close> of lines 117-120\<close>
  "clusterKeys cs = sort_Strings (range_keys (clusterGroups cs))"



definition initialConfig :: "Pkg \<Rightarrow> Config" where
  \<comment> \<open>\<^verbatim>\<open>config\<close> of lines 148-149\<close>
  "initialConfig p =
     (GetAlertManagerDefaultConfig p) \<lparr> Global := (Global (GetAlertManagerDefaultConfig p)) \<lparr> PagerdutyURL :=
        ''https://events.pagerduty.com/generic/2010-04-15/create_event.json'' \<rparr> \<rparr>"

definition ex_config_g1 :: Config where
  \<comment> \<open>the document of \<open>ex_pkg\<close> with the receiver and the route of the group \<^verbatim>\<open>g1\<close> and
     its event rule\<close>
  "ex_config_g1 =
     \<lparr> Global = \<lparr> PagerdutyURL = [] \<rparr>,
       Receivers = [\<lparr> Receiver.Name = ''g1'', PagerdutyConfigs = [], WebhookConfigs = [],
          SlackConfigs = [\<lparr> APIURL = ''https://hooks'', Channel = ''#alert'', Text = tmpl_slack_text,
             Title = tmpl_rancher_title, TitleLink = [], Color = tmpl_slack_color \<rparr>],
          EmailConfigs = [] \<rparr>],
       Route = MkRoute ''rancherlabs'' Map.empty None None None
         [MkRoute ''g1'' (Map.empty(''group_id'' \<mapsto> ''g1'')) (Some (10 * Second)) None (Some (10 * Second))
           [MkRoute [] (Map.empty(''alert_type'' \<mapsto> ''event'', ''rule_id'' \<mapsto> ''g1_r1''))
              (Some (10 * Second)) None (Some (1 * Second)) []]] \<rparr>"




section \<open>Properties\<close>

subsection \<open>Loops\<close>

lemma range_err_append:
  "range_err step s (xs @ ys) =
     (case range_err step s xs of Inl e \<Rightarrow> Inl e | Inr s' \<Rightarrow> range_err step s' ys)"
  by (induction xs arbitrary: s) (auto split: sum.splits)

lemma range_err_skip:
  assumes "\<And>s. step s x = Inr s"
  shows "range_err step s (xs @ x # ys) = range_err step s (xs @ ys)"
  by (simp add: range_err_append assms split: sum.splits)

lemma range_err_invariant:
  assumes "range_err step s xs = Inr s'" and "P s"
    and "\<And>s x s'. x \<in> set xs \<Longrightarrow> P s \<Longrightarrow> step s x = Inr s' \<Longrightarrow> P s'"
  shows "P s'"
  using assms
proof (induction xs arbitrary: s)
  case Nil
  then show ?case by simp
next
  case (Cons x xs)
  from Cons.prems(1) obtain s1 where s1: "step s x = Inr s1" and rest: "range_err step s1 xs = Inr s'"
    by (auto split: sum.splits)
  have "P s1" using Cons.prems(3)[of x s s1] Cons.prems(2) s1 by simp
  then show ?case using Cons.IH[OF rest] Cons.prems(3) by auto
qed

subsection \<open>Recipients that do not resolve\<close>

lemma addRecipient_unresolved:
  "\<not> resolvable d notifiers r \<Longrightarrow> addRecipient d notifiers acc r = acc"
  by (cases acc) (auto simp: addRecipient_def resolvable_def split: option.splits)

lemma foldl_addRecipient_unresolved:
  "\<forall>r \<in> set rs. \<not> resolvable d notifiers r \<Longrightarrow> foldl (addRecipient d notifiers) acc rs = acc"
  by (induction rs arbitrary: acc) (simp_all add: addRecipient_unresolved)

lemma addRecipients_unresolved:
  "\<forall>r \<in> set rs. \<not> resolvable d notifiers r \<Longrightarrow> addRecipients d notifiers receiver rs = (receiver, False)"
  by (simp add: addRecipients_def foldl_addRecipient_unresolved)

lemma clusterGroupStep_unresolved:
  assumes "clusterAlertGroupLister d (clusterName d) (snd (ref_Parse p groupID)) = (Some g, None)"
    and "\<forall>r \<in> set (ClusterGroupSpec.Recipients (ClusterAlertGroup.Spec g)). \<not> resolvable d notifiers r"
  shows "clusterGroupStep d p notifiers alerts config groupID = Inr config"
  using assms by (simp add: clusterGroupStep_def addRecipients_unresolved)

subsection \<open>The rule groups of the publisher\<close>

lemma foldl_cluster_AddRule:
  "foldl (\<lambda>ruleGroup alertRule.
        (case ClusterAlertRuleSpec.MetricRule (ClusterAlertRule.Spec alertRule) of
           Some m \<Rightarrow>
             (let ruleID = GetRuleID p (ClusterAlertRuleSpec.GroupName (ClusterAlertRule.Spec alertRule))
                             (ClusterAlertRule.Name alertRule);
                  promRule = Metric2Rule p groupID ruleID
                    (Severity (ClusterAlertRuleSpec.CommonRuleField (ClusterAlertRule.Spec alertRule)))
                    (DisplayName (ClusterAlertRuleSpec.CommonRuleField (ClusterAlertRule.Spec alertRule)))
                    (clusterName d) m
              in AddRule ruleGroup promRule)
         | None \<Rightarrow> ruleGroup)) rg alertRules
   = rg \<lparr> Rules := Rules rg @ clusterMetricRules d p groupID alertRules \<rparr>"
  by (induction alertRules arbitrary: rg)
     (auto simp: clusterMetricRules_def AddRule_def split: option.splits)

lemma clusterRuleGroup_eq:
  "clusterRuleGroup d p groupID alertRules =
     \<lparr> RuleGroup.Name = groupID, Rules = clusterMetricRules d p groupID alertRules \<rparr>"
  by (simp add: clusterRuleGroup_def foldl_cluster_AddRule GetRuleGroup_def)

lemma clusterOperatorGroups_eq:
  "clusterOperatorGroups d p groupRules (enabled, promRule) keys =
     (enabled \<or> keys \<noteq> [],
      promRule \<lparr> Groups := Groups promRule @
         map (\<lambda>groupID. clusterRuleGroup d p groupID (index groupRules groupID)) keys \<rparr>)"
  by (induction keys arbitrary: enabled promRule)
     (auto simp: clusterOperatorGroups_def AddRuleGroup_def)

lemma foldl_project_AddRule:
  "foldl (\<lambda>ruleGroup alertRule.
        (case ProjectAlertRuleSpec.MetricRule (ProjectAlertRule.Spec alertRule) of
           Some m \<Rightarrow>
             (let ruleID = GetRuleID p (ProjectAlertRuleSpec.GroupName (ProjectAlertRule.Spec alertRule))
                             (ProjectAlertRule.Name alertRule);
                  promRule = Metric2Rule p groupID ruleID
                    (Severity (ProjectAlertRuleSpec.CommonRuleField (ProjectAlertRule.Spec alertRule)))
                    (DisplayName (ProjectAlertRuleSpec.CommonRuleField (ProjectAlertRule.Spec alertRule)))
                    (clusterName d) m
              in AddRule ruleGroup promRule)
         | None \<Rightarrow> ruleGroup)) rg alertRules
   = rg \<lparr> Rules := Rules rg @ projectMetricRules d p groupID alertRules \<rparr>"
  by (induction alertRules arbitrary: rg)
     (auto simp: projectMetricRules_def AddRule_def split: option.splits)

lemma projectRuleGroup_eq:
  "projectRuleGroup d p groupID alertRules =
     \<lparr> RuleGroup.Name = groupID, Rules = projectMetricRules d p groupID alertRules \<rparr>"
  by (simp add: projectRuleGroup_def foldl_project_AddRule GetRuleGroup_def)

lemma projectOperatorGroups_eq:
  "projectOperatorGroups d p groupRules (enabled, promRule) groupIDs =
     (enabled \<or> groupIDs \<noteq> [],
      promRule \<lparr> Groups := Groups promRule @
         map (\<lambda>groupID. projectRuleGroup d p groupID (index groupRules groupID)) groupIDs \<rparr>)"
  by (induction groupIDs arbitrary: enabled promRule)
     (auto simp: projectOperatorGroups_def AddRuleGroup_def)

subsection \<open>The reconcile when the monitoring stack is not ready\<close>

text \<open>
  Claim C7, as the code has it. When the monitoring stack is not deployed, the reconcile
  returns nil and leaves the world as it was: nothing is listed, handed to the rule-CR
  store or written to the secret store. When the stack is deployed and its endpoint
  cannot be resolved, the reconcile leaves the world as it was too, and returns the
  endpoint's error itself to the caller.
\<close>

theorem sync_not_ready:
  "(IsDeploy (alertManager d) = False \<longrightarrow> sync d p w = (Nil, w)) \<and>
   (IsDeploy (alertManager d) \<longrightarrow> GetAlertManagerEndpoint (alertManager d) = Inl err \<longrightarrow>
      sync d p w = (Err err, w))"
  by (simp add: sync_def)

theorem sync_not_ready_witness:
  "sync (ex_syncer [ex_event] \<lparr> alertManager := \<lparr> IsDeploy = False, GetAlertManagerEndpoint = Inl ''no endpoint'' \<rparr> \<rparr>)
      ex_pkg ex_world = (Nil, ex_world) \<and>
   sync (ex_syncer [ex_event] \<lparr> alertManager := \<lparr> IsDeploy = True, GetAlertManagerEndpoint = Inl ''no endpoint'' \<rparr> \<rparr>)
      ex_pkg ex_world = (Err ''no endpoint'', ex_world)"
  using sync_not_ready [of "ex_syncer [ex_event] \<lparr> alertManager := \<lparr> IsDeploy = False, GetAlertManagerEndpoint = Inl ''no endpoint'' \<rparr> \<rparr>" ex_pkg ex_world]
    sync_not_ready [of "ex_syncer [ex_event] \<lparr> alertManager := \<lparr> IsDeploy = True, GetAlertManagerEndpoint = Inl ''no endpoint'' \<rparr> \<rparr>" ex_pkg ex_world "''no endpoint''"]
  by (simp add: ex_syncer_def)

text \<open>
  The claim as stated fails: with the stack deployed and the endpoint unresolved, the
  reconcile does not signal success.
\<close>

theorem sync_endpoint_unresolved_counterexample:
  "fst (sync (ex_syncer [ex_event] \<lparr> alertManager := \<lparr> IsDeploy = True, GetAlertManagerEndpoint = Inl ''no endpoint'' \<rparr> \<rparr>)
      ex_pkg ex_world) = Err ''no endpoint''"
  by (simp add: sync_def ex_syncer_def)

subsection \<open>The route of an event rule\<close>

text \<open>
  Claim C1, at the active event rule \<^verbatim>\<open>r1\<close> of the cluster group \<^verbatim>\<open>g1\<close>, whose one
  recipient resolves. The assembler puts a child under the group's route that matches
  on \<^verbatim>\<open>alert_type=event\<close> and the rule id, with a group-wait of 10 seconds. The call of
  line 342 passes \<^verbatim>\<open>defaultRepeatInterval\<close> where \<^verbatim>\<open>newRoute\<close> takes the group interval
  and \<^verbatim>\<open>eventGroupInterval\<close> where it takes the repeat interval: the child has no
  group-interval of its own, and a repeat-interval of 1 second.
\<close>

theorem event_route_timing:
  "addClusterAlert2Config (ex_syncer [ex_event]) ex_pkg (GetAlertManagerDefaultConfig ex_pkg)
      [(''g1'', [ex_event])] [''g1''] [ex_slack]
   = Inr \<lparr> Global = \<lparr> PagerdutyURL = [] \<rparr>,
          Receivers = [\<lparr> Receiver.Name = ''g1'', PagerdutyConfigs = [], WebhookConfigs = [],
             SlackConfigs = [\<lparr> APIURL = ''https://hooks'', Channel = ''#alert'', Text = tmpl_slack_text,
                Title = tmpl_rancher_title, TitleLink = [], Color = tmpl_slack_color \<rparr>],
             EmailConfigs = [] \<rparr>],
          Route = MkRoute ''rancherlabs'' Map.empty None None None
            [MkRoute ''g1'' (Map.empty(''group_id'' \<mapsto> ''g1'')) (Some (10 * Second)) None (Some (10 * Second))
              [MkRoute [] (Map.empty(''alert_type'' \<mapsto> ''event'', ''rule_id'' \<mapsto> ''g1_r1''))
                 (Some (10 * Second)) None (Some (1 * Second)) []]] \<rparr>"
  by (simp add: addClusterAlert2Config_def clusterGroupStep_def clusterRuleStep_def addRecipients_def
      addRecipient_def newRoute_def appendRoute_def index_def ex_syncer_def ex_pkg_def ex_event_def
      ex_slack_def ex_group_def defaultGroupWait_def defaultRepeatInterval_def
      defaultGroupInterval_def eventGroupInterval_def Let_def)

subsection \<open>The route of a rule that is not an event rule\<close>

lemma seconds_exact:
  fixes n :: goint
  assumes "- 9223372036 \<le> sint n" and "sint n \<le> 9223372036"
  shows "sint (n * Second) = sint n * 1000000000"
proof -
  have "sint (n * Second) = signed_take_bit 63 (sint n * sint Second)"
    by (simp add: sint_word_ariths)
  also have "sint Second = 1000000000" by (simp add: Second_def)
  also have "signed_take_bit 63 (sint n * 1000000000) = sint n * 1000000000"
    using assms by (intro signed_take_bit_int_eq_self) auto
  finally show ?thesis .
qed

text \<open>
  Claim C2, as the code has it. The child route that the assembler makes for a rule that
  is not inactive and has a metric, system-service or node payload (cluster scope), or a
  pod, workload or metric payload (project scope), matches on the rule id and carries
  the rule's own values: its group-wait and its repeat-interval are the rule's
  \<^verbatim>\<open>GroupWaitSeconds\<close> and \<^verbatim>\<open>RepeatIntervalSeconds\<close> times one second, whatever these
  are, and its group-interval is the rule's \<^verbatim>\<open>GroupIntervalSeconds\<close> times one second,
  left unset when that value is 10, the default. No value of the group is put in for a
  rule whose fields are zero. The product is the number of seconds as long as it fits
  64 bits.
\<close>

theorem rule_route_timing:
  "(cluster_active alert \<and>
      (ClusterAlertRuleSpec.MetricRule (ClusterAlertRule.Spec alert) \<noteq> None
       \<or> SystemServiceRule (ClusterAlertRule.Spec alert) \<noteq> None
       \<or> NodeRule (ClusterAlertRule.Spec alert) \<noteq> None) \<longrightarrow>
    last (Routes (clusterRuleStep p groupID r1 alert)) =
      MkRoute [] (Map.empty(''rule_id'' \<mapsto> GetRuleID p groupID (ClusterAlertRule.Name alert)))
        (Some (GroupWaitSeconds (ClusterAlertRuleSpec.CommonRuleField (ClusterAlertRule.Spec alert)) * Second))
        (if GroupIntervalSeconds (ClusterAlertRuleSpec.CommonRuleField (ClusterAlertRule.Spec alert)) = defaultGroupInterval
         then None
         else Some (GroupIntervalSeconds (ClusterAlertRuleSpec.CommonRuleField (ClusterAlertRule.Spec alert)) * Second))
        (Some (RepeatIntervalSeconds (ClusterAlertRuleSpec.CommonRuleField (ClusterAlertRule.Spec alert)) * Second))
        []) \<and>
   (project_active palert \<and>
      (PodRule (ProjectAlertRule.Spec palert) \<noteq> None
       \<or> WorkloadRule (ProjectAlertRule.Spec palert) \<noteq> None
       \<or> ProjectAlertRuleSpec.MetricRule (ProjectAlertRule.Spec palert) \<noteq> None) \<longrightarrow>
    Routes (projectRuleStep p groupID r1 palert) = Routes r1 @
      [MkRoute [] (Map.empty(''rule_id'' \<mapsto> GetRuleID p groupID (ProjectAlertRule.Name palert)))
        (Some (GroupWaitSeconds (ProjectAlertRuleSpec.CommonRuleField (ProjectAlertRule.Spec palert)) * Second))
        (if GroupIntervalSeconds (ProjectAlertRuleSpec.CommonRuleField (ProjectAlertRule.Spec palert)) = defaultGroupInterval
         then None
         else Some (GroupIntervalSeconds (ProjectAlertRuleSpec.CommonRuleField (ProjectAlertRule.Spec palert)) * Second))
        (Some (RepeatIntervalSeconds (ProjectAlertRuleSpec.CommonRuleField (ProjectAlertRule.Spec palert)) * Second))
        []]) \<and>
   (- 9223372036 \<le> sint n \<and> sint n \<le> 9223372036 \<longrightarrow> sint (n * Second) = sint n * 1000000000)"
  by (cases r1)
     (auto simp: clusterRuleStep_def projectRuleStep_def addRule_def newRoute_def appendRoute_def
        cluster_active_def project_active_def defaultGroupInterval_def Let_def seconds_exact)

theorem rule_route_timing_witness:
  "last (Routes (clusterRuleStep ex_pkg ''g1''
       (newRoute (Map.empty(''group_id'' \<mapsto> ''g1'')) defaultGroupWait defaultRepeatInterval defaultGroupInterval)
       (ex_metric ''r1'' ''active'' (ex_comm 30 10 3600)))) =
     MkRoute [] (Map.empty(''rule_id'' \<mapsto> ''g1_r1'')) (Some (30 * Second)) None (Some (3600 * Second)) []
   \<and> Routes (projectRuleStep ex_pkg ''g1''
       (newRoute (Map.empty(''group_id'' \<mapsto> ''g1'')) defaultGroupWait defaultRepeatInterval defaultGroupInterval)
       ex_workload) =
     [MkRoute [] (Map.empty(''rule_id'' \<mapsto> ''g1_w1'')) (Some (30 * Second)) (Some (180 * Second)) (Some (3600 * Second)) []]
   \<and> sint ((3600 :: goint) * Second) = 3600 * 1000000000"
  using rule_route_timing [of "ex_metric ''r1'' ''active'' (ex_comm 30 10 3600)" ex_pkg "''g1''"
      "newRoute (Map.empty(''group_id'' \<mapsto> ''g1'')) defaultGroupWait defaultRepeatInterval defaultGroupInterval"
      ex_workload 3600]
  by (simp add: ex_metric_def ex_comm_def ex_pkg_def ex_workload_def cluster_active_def project_active_def
      newRoute_def defaultGroupInterval_def defaultRepeatInterval_def)

text \<open>
  The claim as stated fails: a rule without overrides, whose three timing fields are
  Go's zero value, gets a child route of zero group-wait, group-interval and
  repeat-interval, not the 10 seconds of its group.
\<close>

theorem rule_without_overrides_counterexample:
  "Routes (clusterRuleStep ex_pkg ''g1''
       (newRoute (Map.empty(''group_id'' \<mapsto> ''g1'')) defaultGroupWait defaultRepeatInterval defaultGroupInterval)
       (ex_metric ''r1'' ''active'' (ex_comm 0 0 0))) =
     [MkRoute [] (Map.empty(''rule_id'' \<mapsto> ''g1_r1'')) (Some 0) (Some 0) (Some 0) []]
   \<and> Some (0 :: Duration) \<noteq> Some (defaultGroupWait * Second)"
  by (simp add: clusterRuleStep_def addRule_def newRoute_def appendRoute_def ex_metric_def ex_comm_def
      ex_pkg_def defaultGroupInterval_def defaultGroupWait_def Second_def Let_def)

subsection \<open>When the publisher publishes\<close>

lemma addClusterAlert2Operator_eq:
  "addClusterAlert2Operator d p groupRules keys w =
     (if keys = [] then (None, w)
      else callSyncPrometheusRule d (clusterArtifact d p groupRules keys) w)"
  by (simp add: addClusterAlert2Operator_def clusterOperatorGroups_eq clusterRuleGroup_eq
      clusterArtifact_def Let_def)

lemma sort_eq_Nil_iff: "sort xs = [] \<longleftrightarrow> xs = []"
  by (metis length_0_conv length_sort)

lemma projectOperatorStep_eq:
  "projectOperatorStep d p projectGroups projectID w =
     (if index projectGroups projectID = [] then (None, w)
      else callSyncPrometheusRule d (projectArtifact d p projectGroups projectID) w)"
  by (simp add: projectOperatorStep_def projectOperatorGroups_eq projectRuleGroup_eq
      projectArtifact_def Let_def sort_Strings_def range_keys_def sort_eq_Nil_iff)


lemma addProjectAlert2Operator_synced:
  assumes "\<And>r. SyncPrometheusRule (operatorCRDManager d) r = None"
  shows "synced (snd (addProjectAlert2Operator d p projectGroups keys w)) =
           synced w @ map (projectArtifact d p projectGroups)
                        (filter (\<lambda>projectID. index projectGroups projectID \<noteq> []) keys)"
  unfolding addProjectAlert2Operator_def
proof (induction keys arbitrary: w)
  case Nil
  then show ?case by simp
next
  case (Cons k ks)
  show ?case
    by (simp add: projectOperatorStep_eq [of d p projectGroups k w] callSyncPrometheusRule_def
        assms Cons.IH)
qed

text \<open>
  Claim C3, as the code has it. The publisher hands the cluster's artifact to the rule-CR
  store if and only if the cluster's partition has at least one group key, and then
  once; it hands a project's artifact to the store if and only if the project's
  partition has at least one group key; and when no publishing fails, the artifacts
  published for the projects are those of the projects with a group key, in the order of
  the keys. Whether a group produced a metric-rule entry plays no part.
\<close>

theorem publish_iff_group_key:
  "((synced (snd (addClusterAlert2Operator d p groupRules keys w)) \<noteq> synced w) = (keys \<noteq> [])) \<and>
   length (synced (snd (addClusterAlert2Operator d p groupRules keys w))) =
     length (synced w) + (if keys = [] then 0 else 1) \<and>
   ((synced (snd (projectOperatorStep d p projectGroups projectID w)) \<noteq> synced w) =
      (index projectGroups projectID \<noteq> [])) \<and>
   ((\<forall>r. SyncPrometheusRule (operatorCRDManager d) r = None) \<longrightarrow>
      synced (snd (addProjectAlert2Operator d p projectGroups pkeys w)) =
        synced w @ map (projectArtifact d p projectGroups)
                     (filter (\<lambda>projectID. index projectGroups projectID \<noteq> []) pkeys))"
  by (simp add: addClusterAlert2Operator_eq projectOperatorStep_eq callSyncPrometheusRule_def
      addProjectAlert2Operator_synced)

theorem publish_iff_group_key_witness:
  "synced (snd (addClusterAlert2Operator (ex_syncer []) ex_pkg [] [] ex_world)) = synced ex_world \<and>
   length (synced (snd (addClusterAlert2Operator (ex_syncer []) ex_pkg [] [] ex_world))) = 0 \<and>
   synced (snd (projectOperatorStep (ex_syncer []) ex_pkg ex_project_groups ''p2'' ex_world)) = synced ex_world \<and>
   synced (snd (addProjectAlert2Operator (ex_syncer []) ex_pkg ex_project_groups [''p1'', ''p2''] ex_world)) =
     [projectArtifact (ex_syncer []) ex_pkg ex_project_groups ''p1'']"
  using publish_iff_group_key [of "ex_syncer []" ex_pkg "[]" "[]" ex_world ex_project_groups "''p2''" "[''p1'', ''p2'']"]
  by (simp add: ex_syncer_def ex_world_def ex_project_groups_def index_def)

text \<open>
  The claim as stated fails: the only group of the cluster's partition has an event rule
  and no metric rule, so no group produces a metric-rule entry, and the artifact is
  published, with a rule group that has no rule.
\<close>

theorem publish_without_metric_rule_counterexample:
  "clusterMetricRules (ex_syncer [ex_event]) ex_pkg ''g1'' [ex_event] = [] \<and>
   synced (snd (addClusterAlert2Operator (ex_syncer [ex_event]) ex_pkg [(''g1'', [ex_event])] [''g1''] ex_world)) =
     [\<lparr> PrometheusRule.Namespace = ''cattle-prometheus'', Name = ''c1'',
        Groups = [\<lparr> RuleGroup.Name = ''g1'', Rules = [] \<rparr>] \<rparr>]"
  by (simp add: addClusterAlert2Operator_def clusterOperatorGroups_def clusterRuleGroup_def
      clusterMetricRules_def callSyncPrometheusRule_def GetRuleGroup_def AddRuleGroup_def index_def
      ex_syncer_def ex_pkg_def ex_event_def ex_world_def)

subsection \<open>One rule group for each group key\<close>





subsection \<open>What a step of the assembler adds to the document\<close>

lemma addRecipient_Name:
  "Receiver.Name (fst (addRecipient d notifiers acc r)) = Receiver.Name (fst acc)"
  by (cases acc) (simp add: addRecipient_def Let_def split: option.splits)

lemma foldl_addRecipient_Name:
  "Receiver.Name (fst (foldl (addRecipient d notifiers) acc rs)) = Receiver.Name (fst acc)"
  by (induction rs arbitrary: acc) (simp_all add: addRecipient_Name)

lemma addRecipients_Name:
  "Receiver.Name (fst (addRecipients d notifiers receiver rs)) = Receiver.Name receiver"
  by (simp add: addRecipients_def foldl_addRecipient_Name)

lemma appendRoute_Match: "Match (appendRoute r sub) = Match r"
  by (cases r) (simp add: appendRoute_def)

lemma appendRoute_Routes: "Routes (appendRoute r sub) = Routes r @ [sub]"
  by (cases r) (simp add: appendRoute_def)

lemma clusterRuleStep_Match: "Match (clusterRuleStep p g r1 a) = Match r1"
  by (simp add: clusterRuleStep_def addRule_def appendRoute_Match Let_def)

lemma foldl_clusterRuleStep_Match: "Match (foldl (clusterRuleStep p g) r1 rules) = Match r1"
  by (induction rules arbitrary: r1) (simp_all add: clusterRuleStep_Match)

lemma projectRuleStep_Match: "Match (projectRuleStep p g r1 a) = Match r1"
  by (simp add: projectRuleStep_def addRule_def appendRoute_Match Let_def)

lemma foldl_projectRuleStep_Match: "Match (foldl (projectRuleStep p g) r1 rules) = Match r1"
  by (induction rules arbitrary: r1) (simp_all add: projectRuleStep_Match)

lemma clusterGroupStep_adds:
  assumes "clusterGroupStep d p notifiers alerts c k = Inr c'"
  shows "Receiver.Name ` set (Receivers c') \<subseteq> insert k (Receiver.Name ` set (Receivers c))"
    and "\<forall>r \<in> set (Routes (Route c')). r \<in> set (Routes (Route c)) \<or> Match r ''group_id'' = Some k"
proof -
  have n: "Receiver.Name (fst (addRecipients d notifiers
       \<lparr> Receiver.Name = k, PagerdutyConfigs = [], WebhookConfigs = [], SlackConfigs = [], EmailConfigs = [] \<rparr>
       rs)) = k" for rs
    by (simp add: addRecipients_Name)
  show "Receiver.Name ` set (Receivers c') \<subseteq> insert k (Receiver.Name ` set (Receivers c))"
    using assms n
    by (auto simp: clusterGroupStep_def Let_def split: prod.splits option.splits if_splits)
       (metis fst_conv)+
  show "\<forall>r \<in> set (Routes (Route c')). r \<in> set (Routes (Route c)) \<or> Match r ''group_id'' = Some k"
    using assms
    by (auto simp: clusterGroupStep_def Let_def appendRoute_Routes foldl_clusterRuleStep_Match newRoute_def
        split: prod.splits option.splits if_splits)
qed

lemma projectGroupStep_unresolved:
  assumes "projectAlertGroupLister d projectName (snd (ref_Parse p groupID)) = (Some g, None)"
    and "\<forall>r \<in> set (ProjectGroupSpec.Recipients (ProjectAlertGroup.Spec g)). \<not> resolvable d notifiers r"
  shows "projectGroupStep d p notifiers projectName groups config groupID = Inr config"
  using assms by (simp add: projectGroupStep_def addRecipients_unresolved)



lemma cluster_absent_step:
  assumes "k \<noteq> groupID"
    and "groupID \<notin> Receiver.Name ` set (Receivers c)"
    and "\<forall>r \<in> set (Routes (Route c)). Match r ''group_id'' \<noteq> Some groupID"
    and "clusterGroupStep d p notifiers alerts c k = Inr c'"
  shows "groupID \<notin> Receiver.Name ` set (Receivers c') \<and>
       (\<forall>r \<in> set (Routes (Route c')). Match r ''group_id'' \<noteq> Some groupID)"
proof
  show "groupID \<notin> Receiver.Name ` set (Receivers c')"
    using clusterGroupStep_adds(1) [OF assms(4)] assms(1,2) by blast
  show "\<forall>r \<in> set (Routes (Route c')). Match r ''group_id'' \<noteq> Some groupID"
  proof
    fix r assume "r \<in> set (Routes (Route c'))"
    then have "r \<in> set (Routes (Route c)) \<or> Match r ''group_id'' = Some k"
      using clusterGroupStep_adds(2) [OF assms(4)] by blast
    then show "Match r ''group_id'' \<noteq> Some groupID"
      using assms(1,3) by auto
  qed
qed

subsection \<open>Lookups that fail, in the assembler\<close>






















subsection \<open>Writing the secret\<close>

lemmas ex_defs = ex_syncer_def ex_pkg_def ex_event_def ex_world_def ex_slack_def ex_group_def
  ex_comm_def ex_notFound_def ex_timeout_def

lemmas sync_defs = sync_def sync_build_def sync_publish_def callList_def
  addClusterAlert2Operator_def clusterOperatorGroups_def clusterRuleGroup_def
  addProjectAlert2Operator_def projectOperatorStep_def projectOperatorGroups_def projectRuleGroup_def
  callSyncPrometheusRule_def GetRuleGroup_def AddRule_def AddRuleGroup_def
  addClusterAlert2Config_def clusterGroupStep_def clusterRuleStep_def
  addProjectAlert2Config_def projectStep_def projectGroupStep_def projectRuleStep_def
  addRecipients_def addRecipient_def newRoute_def appendRoute_def addRule_def
  cAlertsMap_step_def pAlertsMap_step_def index_def has_key_def range_keys_def sort_Strings_def
  secretBytes_def Wrapf_def Let_def
  defaultGroupWait_def defaultRepeatInterval_def defaultGroupInterval_def eventGroupInterval_def

lemma touch_touch: "touch ls xs (touch ls' xs' w) = touch (ls' @ ls) (xs' @ xs) w"
  by (simp add: touch_def)

lemma touch_Nil: "touch [] [] w = w"
  by (simp add: touch_def)

lemma touch_frame: "secrets (touch ls xs w) = secrets w" "updated (touch ls xs w) = updated w"
  by (simp_all add: touch_def)

lemma callList_touch: "callList l w = touch [l] [] w"
  by (simp add: callList_def touch_def)

lemma addClusterAlert2Operator_touch:
  "\<exists>e xs. \<forall>w. addClusterAlert2Operator d p m ks w = (e, touch [] xs w)"
proof (cases "ks = []")
  case True
  then have "\<forall>w. addClusterAlert2Operator d p m ks w = (None, touch [] [] w)"
    by (simp add: addClusterAlert2Operator_eq touch_Nil)
  then show ?thesis by blast
next
  case False
  then have "\<forall>w. addClusterAlert2Operator d p m ks w =
      (SyncPrometheusRule (operatorCRDManager d) (clusterArtifact d p m ks),
       touch [] [clusterArtifact d p m ks] w)"
    by (simp add: addClusterAlert2Operator_eq callSyncPrometheusRule_def touch_def)
  then show ?thesis by blast
qed

lemma projectOperatorStep_touch:
  "\<exists>e xs. \<forall>w. projectOperatorStep d p m k w = (e, touch [] xs w)"
proof (cases "index m k = []")
  case True
  then have "\<forall>w. projectOperatorStep d p m k w = (None, touch [] [] w)"
    by (simp add: projectOperatorStep_eq touch_Nil)
  then show ?thesis by blast
next
  case False
  then have "\<forall>w. projectOperatorStep d p m k w =
      (SyncPrometheusRule (operatorCRDManager d) (projectArtifact d p m k),
       touch [] [projectArtifact d p m k] w)"
    by (simp add: projectOperatorStep_eq callSyncPrometheusRule_def touch_def)
  then show ?thesis by blast
qed

lemma range_world_touch:
  assumes "\<And>x. \<exists>e xs. \<forall>w. step x w = (e, touch [] xs w)"
  shows "\<exists>e xs. \<forall>w. range_world step ks w = (e, touch [] xs w)"
proof (induction ks)
  case Nil
  have "\<forall>w. range_world step [] w = (None, touch [] [] w)" by (simp add: touch_Nil)
  then show ?case by blast
next
  case (Cons k ks)
  obtain e1 xs1 where s1: "\<And>w. step k w = (e1, touch [] xs1 w)" using assms[of k] by blast
  obtain e2 xs2 where s2: "\<And>w. range_world step ks w = (e2, touch [] xs2 w)" using Cons.IH by blast
  show ?case
  proof (cases e1)
    case None
    have "\<forall>w. range_world step (k # ks) w = (e2, touch [] (xs1 @ xs2) w)"
      by (simp add: s1 s2 None touch_touch)
    then show ?thesis by blast
  next
    case (Some err)
    have "\<forall>w. range_world step (k # ks) w = (Some err, touch [] xs1 w)"
      by (simp add: s1 Some)
    then show ?thesis by blast
  qed
qed

lemma addProjectAlert2Operator_touch:
  "\<exists>e xs. \<forall>w. addProjectAlert2Operator d p m ks w = (e, touch [] xs w)"
  unfolding addProjectAlert2Operator_def
  by (rule range_world_touch) (rule projectOperatorStep_touch)

lemma sync_build_decomp:
  "\<exists>r xs. \<forall>w. (case r of
       Inl out \<Rightarrow> sync_build d p notifiers cs ps w = (out, touch [] xs w)
     | Inr data \<Rightarrow> sync_build d p notifiers cs ps w = sync_publish d p data (touch [] xs w))"
proof -
  let ?cm = "foldl cAlertsMap_step [] cs"
  let ?ck = "sort_Strings (range_keys ?cm)"
  let ?pm = "foldl (pAlertsMap_step d p) [] ps"
  let ?pk = "sort_Strings (range_keys ?pm)"
  let ?cfg = "(GetAlertManagerDefaultConfig p) \<lparr> Global := (Global (GetAlertManagerDefaultConfig p)) \<lparr> PagerdutyURL :=
                         ''https://events.pagerduty.com/generic/2010-04-15/create_event.json'' \<rparr> \<rparr>"
  obtain e1 xs1 where o1: "\<And>w. addClusterAlert2Operator d p ?cm ?ck w = (e1, touch [] xs1 w)"
    using addClusterAlert2Operator_touch by blast
  obtain e2 xs2 where o2: "\<And>w. addProjectAlert2Operator d p ?pm ?pk w = (e2, touch [] xs2 w)"
    using addProjectAlert2Operator_touch by blast
  define r :: "outcome + string" where "r =
    (case e1 of Some err \<Rightarrow> Inl (Err err) | None \<Rightarrow>
     (case e2 of Some err \<Rightarrow> Inl (Err err) | None \<Rightarrow>
      (case addClusterAlert2Config d p ?cfg ?cm ?ck notifiers of Inl err \<Rightarrow> Inl (Err err) | Inr config \<Rightarrow>
       (case addProjectAlert2Config d p config ?pm ?pk notifiers of Inl err \<Rightarrow> Inl (Err err) | Inr config \<Rightarrow>
        (case yaml_Marshal p config of Inl err \<Rightarrow> Inl (Err (Wrapf err ''Marshal secrets'')) | Inr data \<Rightarrow> Inr data)))))"
  define xs where "xs = (case e1 of Some err \<Rightarrow> xs1 | None \<Rightarrow> xs1 @ xs2)"
  have "\<forall>w. (case r of
       Inl out \<Rightarrow> sync_build d p notifiers cs ps w = (out, touch [] xs w)
     | Inr data \<Rightarrow> sync_build d p notifiers cs ps w = sync_publish d p data (touch [] xs w))"
    by (simp add: sync_build_def Let_def o1 o2 r_def xs_def touch_touch split: option.splits sum.splits)
  then show ?thesis by blast
qed

lemma sync_decomp:
  "\<exists>r ls xs. \<forall>w. (case r of
       Inl out \<Rightarrow> sync d p w = (out, touch ls xs w)
     | Inr data \<Rightarrow> sync d p w = sync_publish d p data (touch ls xs w))"
proof -
  have early: "\<exists>r ls xs. \<forall>w. (case r of
       Inl out \<Rightarrow> sync d p w = (out, touch ls xs w)
     | Inr data \<Rightarrow> sync d p w = sync_publish d p data (touch ls xs w))"
    if "\<forall>w. sync d p w = (out, touch ls [] w)" for out ls
  proof -
    from that have "\<forall>w. (case (Inl out :: outcome + string) of
       Inl out \<Rightarrow> sync d p w = (out, touch ls [] w)
     | Inr data \<Rightarrow> sync d p w = sync_publish d p data (touch ls [] w))" by simp
    then show ?thesis by blast
  qed
  show ?thesis
  proof (cases "IsDeploy (alertManager d)")
    case False
    then show ?thesis by (intro early[of Nil "[]"]) (simp add: sync_def touch_Nil)
  next
    case dep: True
    show ?thesis
    proof (cases "GetAlertManagerEndpoint (alertManager d)")
      case (Inl err)
      then show ?thesis using dep by (intro early[of "Err err" "[]"]) (simp add: sync_def touch_Nil)
    next
      case ep: (Inr ep)
      show ?thesis
      proof (cases "notifierLister d")
        case (Inl err)
        then show ?thesis using dep ep
          by (intro early[of "Err (Wrapf err ''List notifiers'')" "[NotifierLister]"])
             (simp add: sync_def callList_touch)
      next
        case ns: (Inr notifiers)
        show ?thesis
        proof (cases "clusterAlertRuleLister d")
          case (Inl err)
          then show ?thesis using dep ep ns
            by (intro early[of "Err (Wrapf err ''List cluster alert rules'')" "[NotifierLister, ClusterAlertRuleLister]"])
               (simp add: sync_def callList_touch touch_touch)
        next
          case cs: (Inr cs)
          show ?thesis
          proof (cases "projectAlertRuleLister d")
            case (Inl err)
            then show ?thesis using dep ep ns cs
              by (intro early[of "Err (Wrapf err ''List project alert rules'')"
                    "[NotifierLister, ClusterAlertRuleLister, ProjectAlertRuleLister]"])
                 (simp add: sync_def callList_touch touch_touch)
          next
            case ps: (Inr ps)
            obtain r xs where b: "\<And>w. (case r of
                 Inl out \<Rightarrow> sync_build d p notifiers cs ps w = (out, touch [] xs w)
               | Inr data \<Rightarrow> sync_build d p notifiers cs ps w = sync_publish d p data (touch [] xs w))"
              using sync_build_decomp by blast
            have s: "sync d p w = sync_build d p notifiers cs ps
                (touch [NotifierLister, ClusterAlertRuleLister, ProjectAlertRuleLister] [] w)" for w
              using dep ep ns cs ps by (simp add: sync_def callList_touch touch_touch)
            have "\<forall>w. (case r of
                 Inl out \<Rightarrow> sync d p w = (out, touch [NotifierLister, ClusterAlertRuleLister, ProjectAlertRuleLister] xs w)
               | Inr data \<Rightarrow> sync d p w = sync_publish d p data
                    (touch [NotifierLister, ClusterAlertRuleLister, ProjectAlertRuleLister] xs w))"
            proof
              fix w
              show "(case r of
                 Inl out \<Rightarrow> sync d p w = (out, touch [NotifierLister, ClusterAlertRuleLister, ProjectAlertRuleLister] xs w)
               | Inr data \<Rightarrow> sync d p w = sync_publish d p data
                    (touch [NotifierLister, ClusterAlertRuleLister, ProjectAlertRuleLister] xs w))"
                using b[of "touch [NotifierLister, ClusterAlertRuleLister, ProjectAlertRuleLister] [] w"]
                by (cases r) (simp_all add: s touch_touch)
            qed
            then show ?thesis by blast
          qed
        qed
      qed
    qed
  qed
qed


lemma sync_publish_same:
  assumes "secrets w (secretKey p) = Inr s" and "secretBytes s ''alertmanager.yaml'' = data"
  shows "sync_publish d p data w = (Nil, w)"
  using assms by (simp add: sync_publish_def secretKey_def Let_def case_prod_beta)

lemma secretBytes_written:
  "secretBytes (s \<lparr> Data := Some (m(''alertmanager.yaml'' \<mapsto> data, ''notification.tmpl'' \<mapsto> t)) \<rparr>)
     ''alertmanager.yaml'' = data"
  by (simp add: secretBytes_def)

lemma sync_publish_Nil:
  assumes "sync_publish d p data w = (Nil, w1)"
  shows "\<exists>s. secrets w1 (secretKey p) = Inr s \<and> secretBytes s ''alertmanager.yaml'' = data"
  using assms
  by (auto simp: sync_publish_def secretKey_def Let_def case_prod_beta secretBytes_written
      split: sum.splits option.splits if_splits)

lemma sync_publish_write:
  assumes "updated (snd (sync_publish d p data w)) \<noteq> updated w"
  shows "\<exists>s m. secrets w (secretKey p) = Inr s \<and> Data s = Some m \<and>
           secretBytes s ''alertmanager.yaml'' \<noteq> data \<and>
           updated (snd (sync_publish d p data w)) = updated w @
             [s \<lparr> Data := Some (m(''alertmanager.yaml'' \<mapsto> data, ''notification.tmpl'' \<mapsto> NotificationTmpl p)) \<rparr>]"
  using assms
  by (auto simp: sync_publish_def secretKey_def Let_def case_prod_beta
      split: sum.splits option.splits if_splits)

lemma sync_write:
  assumes "updated (snd (sync d p w)) \<noteq> updated w"
  shows "\<exists>data s m. secrets w (secretKey p) = Inr s \<and> Data s = Some m \<and>
           secretBytes s ''alertmanager.yaml'' \<noteq> data \<and>
           updated (snd (sync d p w)) = updated w @
             [s \<lparr> Data := Some (m(''alertmanager.yaml'' \<mapsto> data, ''notification.tmpl'' \<mapsto> NotificationTmpl p)) \<rparr>]"
proof -
  obtain r ls xs where dec: "\<And>w. (case r of
       Inl out \<Rightarrow> sync d p w = (out, touch ls xs w)
     | Inr data \<Rightarrow> sync d p w = sync_publish d p data (touch ls xs w))"
    using sync_decomp by blast
  show ?thesis
  proof (cases r)
    case (Inl out)
    then have "sync d p w = (out, touch ls xs w)" using dec[of w] by simp
    then show ?thesis using assms by (simp add: touch_frame)
  next
    case (Inr data)
    then have s: "sync d p w = sync_publish d p data (touch ls xs w)" using dec[of w] by simp
    from assms have "updated (snd (sync_publish d p data (touch ls xs w))) \<noteq> updated (touch ls xs w)"
      by (simp add: s touch_frame)
    from sync_publish_write [OF this] show ?thesis
      by (simp add: s touch_frame) blast
  qed
qed

lemma sync_twice:
  assumes "sync d p w = (Nil, w1)"
  shows "fst (sync d p w1) = Nil \<and> updated (snd (sync d p w1)) = updated w1 \<and>
         secrets (snd (sync d p w1)) = secrets w1"
proof -
  obtain r ls xs where dec: "\<And>w. (case r of
       Inl out \<Rightarrow> sync d p w = (out, touch ls xs w)
     | Inr data \<Rightarrow> sync d p w = sync_publish d p data (touch ls xs w))"
    using sync_decomp by blast
  show ?thesis
  proof (cases r)
    case (Inl out)
    then have "sync d p w = (out, touch ls xs w)" "sync d p w1 = (out, touch ls xs w1)"
      using dec[of w] dec[of w1] by simp_all
    then show ?thesis using assms by (simp add: touch_frame)
  next
    case (Inr data)
    then have s: "sync d p w = sync_publish d p data (touch ls xs w)"
      and s1: "sync d p w1 = sync_publish d p data (touch ls xs w1)"
      using dec[of w] dec[of w1] by simp_all
    from assms s have "sync_publish d p data (touch ls xs w) = (Nil, w1)" by simp
    from sync_publish_Nil [OF this] obtain sec
      where sec: "secrets w1 (secretKey p) = Inr sec" "secretBytes sec ''alertmanager.yaml'' = data"
      by blast
    have "sync_publish d p data (touch ls xs w1) = (Nil, touch ls xs w1)"
      by (rule sync_publish_same [OF _ sec(2)]) (simp add: touch_frame sec(1))
    then show ?thesis by (simp add: s1 touch_frame)
  qed
qed

text \<open>
  What holds of writing the secret. When the bytes stored under \<^verbatim>\<open>alertmanager.yaml\<close>
  equal the serialized document, the reconcile does not call the secret store's
  \<^verbatim>\<open>Update\<close> and returns nil. When a reconcile calls \<^verbatim>\<open>Update\<close>, it does so once, the
  stored bytes differ from the serialized document, and the secret written is the stored
  one with the document under \<^verbatim>\<open>alertmanager.yaml\<close> and the template under
  \<^verbatim>\<open>notification.tmpl\<close>. A reconcile that follows a reconcile that returned nil, whose
  listings return the same objects in the same order, returns nil, calls \<^verbatim>\<open>Update\<close> not
  at all and leaves the secret store as it is. (The rule-CR store is handed its artifacts
  at every reconcile.)
\<close>

theorem publish_only_on_change:
  "(secrets w (secretKey p) = Inr s \<and> secretBytes s ''alertmanager.yaml'' = data \<longrightarrow>
      sync_publish d p data w = (Nil, w)) \<and>
   (updated (snd (sync_publish d p data w)) \<noteq> updated w \<longrightarrow>
      (\<exists>s m. secrets w (secretKey p) = Inr s \<and> Data s = Some m \<and>
           secretBytes s ''alertmanager.yaml'' \<noteq> data \<and>
           updated (snd (sync_publish d p data w)) = updated w @
             [s \<lparr> Data := Some (m(''alertmanager.yaml'' \<mapsto> data, ''notification.tmpl'' \<mapsto> NotificationTmpl p)) \<rparr>])) \<and>
   (updated (snd (sync d p w)) \<noteq> updated w \<longrightarrow>
      (\<exists>data s m. secrets w (secretKey p) = Inr s \<and> Data s = Some m \<and>
           secretBytes s ''alertmanager.yaml'' \<noteq> data \<and>
           updated (snd (sync d p w)) = updated w @
             [s \<lparr> Data := Some (m(''alertmanager.yaml'' \<mapsto> data, ''notification.tmpl'' \<mapsto> NotificationTmpl p)) \<rparr>])) \<and>
   (sync d p w = (Nil, w1) \<longrightarrow>
      fst (sync d p w1) = Nil \<and> updated (snd (sync d p w1)) = updated w1 \<and>
      secrets (snd (sync d p w1)) = secrets w1)"
  using sync_publish_same sync_publish_write sync_write sync_twice by blast

theorem publish_only_on_change_witness:
  "sync_publish (ex_syncer [ex_event]) ex_pkg ''g1'' ex_world1 = (Nil, ex_world1) \<and>
   (\<exists>s m. secrets ex_world (secretKey ex_pkg) = Inr s \<and> Data s = Some m \<and>
           secretBytes s ''alertmanager.yaml'' \<noteq> ''g1'' \<and>
           updated (snd (sync_publish (ex_syncer [ex_event]) ex_pkg ''g1'' ex_world)) = updated ex_world @
             [s \<lparr> Data := Some (m(''alertmanager.yaml'' \<mapsto> ''g1'', ''notification.tmpl'' \<mapsto> NotificationTmpl ex_pkg)) \<rparr>]) \<and>
   (\<exists>data s m. secrets ex_world (secretKey ex_pkg) = Inr s \<and> Data s = Some m \<and>
           secretBytes s ''alertmanager.yaml'' \<noteq> data \<and>
           updated (snd (sync (ex_syncer [ex_event]) ex_pkg ex_world)) = updated ex_world @
             [s \<lparr> Data := Some (m(''alertmanager.yaml'' \<mapsto> data, ''notification.tmpl'' \<mapsto> NotificationTmpl ex_pkg)) \<rparr>]) \<and>
   sync (ex_syncer [ex_event]) ex_pkg ex_world = (Nil, ex_world1) \<and>
   fst (sync (ex_syncer [ex_event]) ex_pkg ex_world1) = Nil \<and>
   updated (snd (sync (ex_syncer [ex_event]) ex_pkg ex_world1)) = updated ex_world1 \<and>
   secrets (snd (sync (ex_syncer [ex_event]) ex_pkg ex_world1)) = secrets ex_world1"
proof -
  have run: "sync (ex_syncer [ex_event]) ex_pkg ex_world = (Nil, ex_world1)"
    by (simp add: sync_defs ex_defs ex_world1_def)
  have pub: "updated (snd (sync_publish (ex_syncer [ex_event]) ex_pkg ''g1'' ex_world)) \<noteq> updated ex_world"
    by (simp add: sync_publish_def secretBytes_def ex_defs Let_def)
  have stored: "secrets ex_world1 (secretKey ex_pkg) =
      Inr \<lparr> Data = Some (Map.empty(''alertmanager.yaml'' \<mapsto> ''g1'', ''notification.tmpl'' \<mapsto> ''tmpl'')) \<rparr>"
    by (simp add: ex_world1_def secretKey_def ex_pkg_def)
  have bytes: "secretBytes \<lparr> Data = Some (Map.empty(''alertmanager.yaml'' \<mapsto> ''g1'', ''notification.tmpl'' \<mapsto> ''tmpl'')) \<rparr>
      ''alertmanager.yaml'' = ''g1''"
    by (simp add: secretBytes_def)
  have wr: "updated (snd (sync (ex_syncer [ex_event]) ex_pkg ex_world)) \<noteq> updated ex_world"
    by (simp only: run snd_conv) (simp add: ex_world1_def ex_world_def)
  show ?thesis
    using publish_only_on_change [of ex_world1 ex_pkg _ "''g1''" "ex_syncer [ex_event]" ex_world1]
      publish_only_on_change [of ex_world ex_pkg _ "''g1''" "ex_syncer [ex_event]" ex_world1]
      run pub stored bytes wr
    by simp
qed

subsection \<open>Rules that are inactive\<close>


























subsection \<open>The order of the listings\<close>

text \<open>
  Claim C9, at two active metric rules \<^verbatim>\<open>r1\<close> and \<^verbatim>\<open>r2\<close> of the cluster group \<^verbatim>\<open>g1\<close>,
  listed in one order and in the other. The group keys are sorted, the rules of a group
  are not: the routes under the group's route and the rules of the group's rule group
  follow the listing, so the two documents differ, the two artifacts differ, and with a
  serializer that writes sequences in their order the bytes written differ.
\<close>

theorem lister_order_changes_output:
  "mset [ex_r1, ex_r2] = mset [ex_r2, ex_r1] \<and>
   addClusterAlert2Config (ex_syncer []) ex_pkg (initialConfig ex_pkg)
       (clusterGroups [ex_r1, ex_r2]) (clusterKeys [ex_r1, ex_r2]) [ex_slack] \<noteq>
   addClusterAlert2Config (ex_syncer []) ex_pkg (initialConfig ex_pkg)
       (clusterGroups [ex_r2, ex_r1]) (clusterKeys [ex_r2, ex_r1]) [ex_slack] \<and>
   synced (snd (sync (ex_syncer [ex_r1, ex_r2]) ex_pkg_yaml ex_world)) =
     [\<lparr> PrometheusRule.Namespace = ''cattle-prometheus'', Name = ''c1'',
        Groups = [\<lparr> RuleGroup.Name = ''g1'', Rules = [''g1_r1 up == 0'', ''g1_r2 up == 0''] \<rparr>] \<rparr>] \<and>
   synced (snd (sync (ex_syncer [ex_r2, ex_r1]) ex_pkg_yaml ex_world)) =
     [\<lparr> PrometheusRule.Namespace = ''cattle-prometheus'', Name = ''c1'',
        Groups = [\<lparr> RuleGroup.Name = ''g1'', Rules = [''g1_r2 up == 0'', ''g1_r1 up == 0''] \<rparr>] \<rparr>] \<and>
   map (\<lambda>s. secretBytes s ''alertmanager.yaml'')
     (updated (snd (sync (ex_syncer [ex_r1, ex_r2]) ex_pkg_yaml ex_world))) = [''g1;g1:g1_r1,g1_r2,;''] \<and>
   map (\<lambda>s. secretBytes s ''alertmanager.yaml'')
     (updated (snd (sync (ex_syncer [ex_r2, ex_r1]) ex_pkg_yaml ex_world))) = [''g1;g1:g1_r2,g1_r1,;'']"
  by (simp add: sync_defs ex_defs ex_metric_def ex_r1_def ex_r2_def ex_pkg_yaml_def ex_yaml_def
      clusterGroups_def clusterKeys_def initialConfig_def Second_def)

subsection \<open>A second reconcile after the listings change their order\<close>

text \<open>
  Claim C6, at the same two rules. The first reconcile lists \<^verbatim>\<open>r1\<close> before \<^verbatim>\<open>r2\<close>,
  returns nil and writes the secret once. The second reconcile starts from the world
  that the first one left, with nothing changed in the backing store, and lists \<^verbatim>\<open>r2\<close>
  before \<^verbatim>\<open>r1\<close>: the document it serializes has the two routes in the other order, its
  bytes differ from the bytes stored, and the secret is written a second time.
\<close>

theorem second_reconcile_reordered_writes_again:
  "mset [ex_r1, ex_r2] = mset [ex_r2, ex_r1] \<and>
   fst (sync (ex_syncer [ex_r1, ex_r2]) ex_pkg_yaml ex_world) = Nil \<and>
   map (\<lambda>s. secretBytes s ''alertmanager.yaml'')
     (updated (snd (sync (ex_syncer [ex_r1, ex_r2]) ex_pkg_yaml ex_world))) =
     [''g1;g1:g1_r1,g1_r2,;''] \<and>
   fst (sync (ex_syncer [ex_r2, ex_r1]) ex_pkg_yaml
          (snd (sync (ex_syncer [ex_r1, ex_r2]) ex_pkg_yaml ex_world))) = Nil \<and>
   map (\<lambda>s. secretBytes s ''alertmanager.yaml'')
     (updated (snd (sync (ex_syncer [ex_r2, ex_r1]) ex_pkg_yaml
          (snd (sync (ex_syncer [ex_r1, ex_r2]) ex_pkg_yaml ex_world))))) =
     [''g1;g1:g1_r1,g1_r2,;'', ''g1;g1:g1_r2,g1_r1,;'']"
  by (simp add: sync_defs ex_defs ex_metric_def ex_r1_def ex_r2_def ex_pkg_yaml_def ex_yaml_def)

subsection \<open>Recipient gating of the configuration document, not of the rule groups\<close>

lemma projectGroupStep_adds:
  assumes "projectGroupStep d p notifiers projectName groups c k = Inr c'"
  shows "Receiver.Name ` set (Receivers c') \<subseteq> insert k (Receiver.Name ` set (Receivers c))"
    and "\<forall>r \<in> set (Routes (Route c')). r \<in> set (Routes (Route c)) \<or> Match r ''group_id'' = Some k"
proof -
  have n: "Receiver.Name (fst (addRecipients d notifiers
       \<lparr> Receiver.Name = k, PagerdutyConfigs = [], WebhookConfigs = [], SlackConfigs = [], EmailConfigs = [] \<rparr>
       rs)) = k" for rs
    by (simp add: addRecipients_Name)
  show "Receiver.Name ` set (Receivers c') \<subseteq> insert k (Receiver.Name ` set (Receivers c))"
    using assms n
    by (auto simp: projectGroupStep_def Let_def split: prod.splits option.splits if_splits)
       (metis fst_conv)+
  show "\<forall>r \<in> set (Routes (Route c')). r \<in> set (Routes (Route c)) \<or> Match r ''group_id'' = Some k"
    using assms
    by (auto simp: projectGroupStep_def Let_def appendRoute_Routes foldl_projectRuleStep_Match newRoute_def
        split: prod.splits option.splits if_splits)
qed

lemma project_absent_step:
  assumes "k \<noteq> groupID"
    and "groupID \<notin> Receiver.Name ` set (Receivers c)"
    and "\<forall>r \<in> set (Routes (Route c)). Match r ''group_id'' \<noteq> Some groupID"
    and "projectGroupStep d p notifiers projectName groups c k = Inr c'"
  shows "groupID \<notin> Receiver.Name ` set (Receivers c') \<and>
       (\<forall>r \<in> set (Routes (Route c')). Match r ''group_id'' \<noteq> Some groupID)"
proof
  show "groupID \<notin> Receiver.Name ` set (Receivers c')"
    using projectGroupStep_adds(1) [OF assms(4)] assms(1,2) by blast
  show "\<forall>r \<in> set (Routes (Route c')). Match r ''group_id'' \<noteq> Some groupID"
  proof
    fix r assume "r \<in> set (Routes (Route c'))"
    then have "r \<in> set (Routes (Route c)) \<or> Match r ''group_id'' = Some k"
      using projectGroupStep_adds(2) [OF assms(4)] by blast
    then show "Match r ''group_id'' \<noteq> Some groupID"
      using assms(1,3) by auto
  qed
qed

lemma cluster_entry_published:
  assumes "groupID \<in> set keys"
  shows "\<exists>A. synced (snd (addClusterAlert2Operator d p alerts keys w)) = synced w @ [A] \<and>
           \<lparr> RuleGroup.Name = groupID, Rules = clusterMetricRules d p groupID (index alerts groupID) \<rparr>
             \<in> set (Groups A)"
proof -
  have ne: "keys \<noteq> []" using assms by auto
  have "synced (snd (addClusterAlert2Operator d p alerts keys w)) = synced w @ [clusterArtifact d p alerts keys]"
    using ne by (simp add: addClusterAlert2Operator_eq callSyncPrometheusRule_def)
  moreover have "\<lparr> RuleGroup.Name = groupID, Rules = clusterMetricRules d p groupID (index alerts groupID) \<rparr>
             \<in> set (Groups (clusterArtifact d p alerts keys))"
    using assms by (auto simp: clusterArtifact_def Let_def image_iff)
  ultimately show ?thesis by blast
qed

lemma project_entry_published:
  assumes ok: "\<And>r. SyncPrometheusRule (operatorCRDManager d) r = None"
    and pk: "projectID \<in> set pkeys"
    and gk: "groupID \<in> set (range_keys (index projectGroups projectID))"
  shows "\<exists>xs. synced (snd (addProjectAlert2Operator d p projectGroups pkeys w)) = synced w @ xs \<and>
           (\<exists>A \<in> set xs.
              \<lparr> RuleGroup.Name = groupID,
                Rules = projectMetricRules d p groupID (index (index projectGroups projectID) groupID) \<rparr>
                \<in> set (Groups A))"
proof -
  let ?xs = "map (projectArtifact d p projectGroups)
               (filter (\<lambda>projectID. index projectGroups projectID \<noteq> []) pkeys)"
  have s: "synced (snd (addProjectAlert2Operator d p projectGroups pkeys w)) = synced w @ ?xs"
    by (rule addProjectAlert2Operator_synced) (rule ok)
  have ne: "index projectGroups projectID \<noteq> []"
    using gk by (auto simp: range_keys_def)
  then have a: "projectArtifact d p projectGroups projectID \<in> set ?xs"
    using pk by simp
  have "\<lparr> RuleGroup.Name = groupID,
          Rules = projectMetricRules d p groupID (index (index projectGroups projectID) groupID) \<rparr>
          \<in> set (Groups (projectArtifact d p projectGroups projectID))"
    using gk by (auto simp: projectArtifact_def Let_def image_iff range_keys_def)
  with s a show ?thesis by blast
qed

lemma operators_ignore_recipients:
  "addClusterAlert2Operator (d \<lparr> notifierLister := nl, clusterAlertGroupLister := gl,
       projectAlertGroupLister := pgl \<rparr>) p alerts keys w = addClusterAlert2Operator d p alerts keys w"
  "addProjectAlert2Operator (d \<lparr> notifierLister := nl, clusterAlertGroupLister := gl,
       projectAlertGroupLister := pgl \<rparr>) p projectGroups pkeys w = addProjectAlert2Operator d p projectGroups pkeys w"
proof -
  let ?d = "d \<lparr> notifierLister := nl, clusterAlertGroupLister := gl, projectAlertGroupLister := pgl \<rparr>"
  have c: "clusterName ?d = clusterName d" "operatorCRDManager ?d = operatorCRDManager d"
    by simp_all
  have cr: "clusterRuleGroup ?d = clusterRuleGroup d"
    by (intro ext) (simp add: clusterRuleGroup_def c cong: option.case_cong)
  have pr: "projectRuleGroup ?d = projectRuleGroup d"
    by (intro ext) (simp add: projectRuleGroup_def c cong: option.case_cong)
  have cs: "callSyncPrometheusRule ?d = callSyncPrometheusRule d"
    by (intro ext) (simp add: callSyncPrometheusRule_def c)
  have cg: "clusterOperatorGroups ?d = clusterOperatorGroups d"
    by (intro ext) (simp add: clusterOperatorGroups_def cr)
  have pg: "projectOperatorGroups ?d = projectOperatorGroups d"
    by (intro ext) (simp add: projectOperatorGroups_def pr)
  have ps: "projectOperatorStep ?d = projectOperatorStep d"
    by (intro ext) (simp add: projectOperatorStep_def pg cs c Let_def case_prod_beta)
  show "addClusterAlert2Operator ?d p alerts keys w = addClusterAlert2Operator d p alerts keys w"
    by (simp add: addClusterAlert2Operator_def cg cs c Let_def case_prod_beta)
  show "addProjectAlert2Operator ?d p projectGroups pkeys w = addProjectAlert2Operator d p projectGroups pkeys w"
    by (simp add: addProjectAlert2Operator_def ps)
qed

lemma project_document_absent:
  assumes run: "addProjectAlert2Config d p config projectGroups pkeys notifiers = Inr config'"
    and unres: "\<forall>pk \<in> set pkeys. pgroupID \<in> set (range_keys (index projectGroups pk)) \<longrightarrow>
        (\<exists>pg. projectAlertGroupLister d pk (snd (ref_Parse p pgroupID)) = (Some pg, None) \<and>
              (\<forall>r \<in> set (ProjectGroupSpec.Recipients (ProjectAlertGroup.Spec pg)). \<not> resolvable d notifiers r))"
    and c0: "pgroupID \<notin> Receiver.Name ` set (Receivers config) \<and>
            (\<forall>r \<in> set (Routes (Route config)). Match r ''group_id'' \<noteq> Some pgroupID)"
  shows "pgroupID \<notin> Receiver.Name ` set (Receivers config') \<and>
       (\<forall>r \<in> set (Routes (Route config')). Match r ''group_id'' \<noteq> Some pgroupID)"
proof (rule range_err_invariant [where P = "\<lambda>c. pgroupID \<notin> Receiver.Name ` set (Receivers c) \<and>
            (\<forall>r \<in> set (Routes (Route c)). Match r ''group_id'' \<noteq> Some pgroupID)",
      OF run [unfolded addProjectAlert2Config_def] c0])
  fix c pk c'
  assume pk: "pk \<in> set pkeys"
    and pc: "pgroupID \<notin> Receiver.Name ` set (Receivers c) \<and>
            (\<forall>r \<in> set (Routes (Route c)). Match r ''group_id'' \<noteq> Some pgroupID)"
    and step: "projectStep d p notifiers projectGroups c pk = Inr c'"
  let ?groups = "index projectGroups pk"
  have inner: "range_err (projectGroupStep d p notifiers pk ?groups) c (sort_Strings (range_keys ?groups)) = Inr c'"
    using step by (simp add: projectStep_def Let_def)
  show "pgroupID \<notin> Receiver.Name ` set (Receivers c') \<and>
       (\<forall>r \<in> set (Routes (Route c')). Match r ''group_id'' \<noteq> Some pgroupID)"
  proof (rule range_err_invariant [where P = "\<lambda>c. pgroupID \<notin> Receiver.Name ` set (Receivers c) \<and>
            (\<forall>r \<in> set (Routes (Route c)). Match r ''group_id'' \<noteq> Some pgroupID)", OF inner pc])
    fix c1 k c2
    assume k: "k \<in> set (sort_Strings (range_keys ?groups))"
      and p1: "pgroupID \<notin> Receiver.Name ` set (Receivers c1) \<and>
            (\<forall>r \<in> set (Routes (Route c1)). Match r ''group_id'' \<noteq> Some pgroupID)"
      and s: "projectGroupStep d p notifiers pk ?groups c1 k = Inr c2"
    show "pgroupID \<notin> Receiver.Name ` set (Receivers c2) \<and>
       (\<forall>r \<in> set (Routes (Route c2)). Match r ''group_id'' \<noteq> Some pgroupID)"
    proof (cases "k = pgroupID")
      case True
      then have "pgroupID \<in> set (range_keys ?groups)" using k by (simp add: sort_Strings_def)
      with bspec [OF unres pk] obtain pg where
        l: "projectAlertGroupLister d pk (snd (ref_Parse p pgroupID)) = (Some pg, None)"
        and u: "\<forall>r \<in> set (ProjectGroupSpec.Recipients (ProjectAlertGroup.Spec pg)). \<not> resolvable d notifiers r"
        by (elim impE exE conjE) assumption
      have "c2 = c1" using projectGroupStep_unresolved [OF l u, of ?groups c1] s True by simp
      then show ?thesis using p1 by simp
    next
      case False
      from p1 have q1: "pgroupID \<notin> Receiver.Name ` set (Receivers c1)"
        and q2: "\<forall>r \<in> set (Routes (Route c1)). Match r ''group_id'' \<noteq> Some pgroupID"
        by simp_all
      show ?thesis by (rule project_absent_step [OF False q1 q2 s])
    qed
  qed
qed

lemma cluster_document_absent:
  assumes run: "addClusterAlert2Config d p config alerts keys notifiers = Inr config'"
    and unres: "groupID \<in> set keys \<longrightarrow>
        (\<exists>g. clusterAlertGroupLister d (clusterName d) (snd (ref_Parse p groupID)) = (Some g, None) \<and>
              (\<forall>r \<in> set (ClusterGroupSpec.Recipients (ClusterAlertGroup.Spec g)). \<not> resolvable d notifiers r))"
    and c0: "groupID \<notin> Receiver.Name ` set (Receivers config) \<and>
            (\<forall>r \<in> set (Routes (Route config)). Match r ''group_id'' \<noteq> Some groupID)"
  shows "groupID \<notin> Receiver.Name ` set (Receivers config') \<and>
       (\<forall>r \<in> set (Routes (Route config')). Match r ''group_id'' \<noteq> Some groupID)"
proof (rule range_err_invariant [where P = "\<lambda>c. groupID \<notin> Receiver.Name ` set (Receivers c) \<and>
            (\<forall>r \<in> set (Routes (Route c)). Match r ''group_id'' \<noteq> Some groupID)",
      OF run [unfolded addClusterAlert2Config_def] c0])
  fix c1 k c2
  assume k: "k \<in> set keys"
    and p1: "groupID \<notin> Receiver.Name ` set (Receivers c1) \<and>
            (\<forall>r \<in> set (Routes (Route c1)). Match r ''group_id'' \<noteq> Some groupID)"
    and s: "clusterGroupStep d p notifiers alerts c1 k = Inr c2"
  show "groupID \<notin> Receiver.Name ` set (Receivers c2) \<and>
       (\<forall>r \<in> set (Routes (Route c2)). Match r ''group_id'' \<noteq> Some groupID)"
  proof (cases "k = groupID")
    case True
    with k have "groupID \<in> set keys" by simp
    with unres obtain g where
      l: "clusterAlertGroupLister d (clusterName d) (snd (ref_Parse p groupID)) = (Some g, None)"
      and u: "\<forall>r \<in> set (ClusterGroupSpec.Recipients (ClusterAlertGroup.Spec g)). \<not> resolvable d notifiers r"
      by (elim impE exE conjE) assumption
    have "c2 = c1" using clusterGroupStep_unresolved [OF l u, of alerts c1] s True by simp
    then show ?thesis using p1 by simp
  next
    case False
    from p1 have q1: "groupID \<notin> Receiver.Name ` set (Receivers c1)"
      and q2: "\<forall>r \<in> set (Routes (Route c1)). Match r ''group_id'' \<noteq> Some groupID"
      by simp_all
    show ?thesis by (rule cluster_absent_step [OF False q1 q2 s])
  qed
qed

text \<open>
  Claim C4. Take any group, of the cluster or of a project, whose lookup finds it and
  none of whose recipients resolves to a known notifier. The step of the assembler for
  the group leaves the document as it is, so \<open>addClusterAlert2Config\<close>, and the loop of
  \<open>addProjectAlert2Config\<close> over the groups of a project, build the document that they
  build without the group's key. When no receiver and no route of the document that the
  assembler starts from is the group's, the document that \<open>addClusterAlert2Config\<close>
  returns, and the one that \<open>addProjectAlert2Config\<close> returns when this holds of the
  group in every project that has its key, has no receiver named after the group and no
  route under the root that matches the group's id, whatever rules the group has. The
  publisher is not gated: for every group key of the cluster the artifact it hands to
  the rule-CR store has the rule group named after the group, with the rule expressions
  of the group's metric rules, and when the store accepts every artifact the same holds
  of every group key of every project; neither publisher reads the notifiers or the
  groups.
\<close>

theorem recipient_gating:
  "((\<forall>r \<in> set (ClusterGroupSpec.Recipients (ClusterAlertGroup.Spec g)). \<not> resolvable d notifiers r) \<and>
    clusterAlertGroupLister d (clusterName d) (snd (ref_Parse p groupID)) = (Some g, None) \<longrightarrow>
      addClusterAlert2Config d p config alerts (ks1 @ groupID # ks2) notifiers =
        addClusterAlert2Config d p config alerts (ks1 @ ks2) notifiers) \<and>
   (addClusterAlert2Config d p config alerts keys notifiers = Inr config' \<and>
    (groupID \<in> set keys \<longrightarrow>
       (\<exists>g. clusterAlertGroupLister d (clusterName d) (snd (ref_Parse p groupID)) = (Some g, None) \<and>
            (\<forall>r \<in> set (ClusterGroupSpec.Recipients (ClusterAlertGroup.Spec g)). \<not> resolvable d notifiers r))) \<and>
    groupID \<notin> Receiver.Name ` set (Receivers config) \<and>
    (\<forall>r \<in> set (Routes (Route config)). Match r ''group_id'' \<noteq> Some groupID) \<longrightarrow>
      groupID \<notin> Receiver.Name ` set (Receivers config') \<and>
      (\<forall>r \<in> set (Routes (Route config')). Match r ''group_id'' \<noteq> Some groupID)) \<and>
   ((\<forall>r \<in> set (ProjectGroupSpec.Recipients (ProjectAlertGroup.Spec pg)). \<not> resolvable d notifiers r) \<and>
    projectAlertGroupLister d projectName (snd (ref_Parse p pgroupID)) = (Some pg, None) \<longrightarrow>
      range_err (projectGroupStep d p notifiers projectName groups) config (ks1 @ pgroupID # ks2) =
        range_err (projectGroupStep d p notifiers projectName groups) config (ks1 @ ks2)) \<and>
   (addProjectAlert2Config d p pconfig projectGroups pkeys notifiers = Inr pconfig' \<and>
    (\<forall>pk \<in> set pkeys. pgroupID \<in> set (range_keys (index projectGroups pk)) \<longrightarrow>
       (\<exists>pg. projectAlertGroupLister d pk (snd (ref_Parse p pgroupID)) = (Some pg, None) \<and>
             (\<forall>r \<in> set (ProjectGroupSpec.Recipients (ProjectAlertGroup.Spec pg)). \<not> resolvable d notifiers r))) \<and>
    pgroupID \<notin> Receiver.Name ` set (Receivers pconfig) \<and>
    (\<forall>r \<in> set (Routes (Route pconfig)). Match r ''group_id'' \<noteq> Some pgroupID) \<longrightarrow>
      pgroupID \<notin> Receiver.Name ` set (Receivers pconfig') \<and>
      (\<forall>r \<in> set (Routes (Route pconfig')). Match r ''group_id'' \<noteq> Some pgroupID)) \<and>
   (groupID \<in> set keys \<longrightarrow>
      (\<exists>A. synced (snd (addClusterAlert2Operator d p alerts keys w)) = synced w @ [A] \<and>
           \<lparr> RuleGroup.Name = groupID, Rules = clusterMetricRules d p groupID (index alerts groupID) \<rparr>
             \<in> set (Groups A))) \<and>
   ((\<forall>r. SyncPrometheusRule (operatorCRDManager d) r = None) \<and> projectID \<in> set pkeys \<and>
    pgroupID \<in> set (range_keys (index projectGroups projectID)) \<longrightarrow>
      (\<exists>xs. synced (snd (addProjectAlert2Operator d p projectGroups pkeys w)) = synced w @ xs \<and>
           (\<exists>A \<in> set xs.
              \<lparr> RuleGroup.Name = pgroupID,
                Rules = projectMetricRules d p pgroupID (index (index projectGroups projectID) pgroupID) \<rparr>
                \<in> set (Groups A)))) \<and>
   addClusterAlert2Operator (d \<lparr> notifierLister := nl, clusterAlertGroupLister := gl,
       projectAlertGroupLister := pgl \<rparr>) p alerts keys w = addClusterAlert2Operator d p alerts keys w \<and>
   addProjectAlert2Operator (d \<lparr> notifierLister := nl, clusterAlertGroupLister := gl,
       projectAlertGroupLister := pgl \<rparr>) p projectGroups pkeys w = addProjectAlert2Operator d p projectGroups pkeys w"
proof (intro conjI)
  show "(\<forall>r \<in> set (ClusterGroupSpec.Recipients (ClusterAlertGroup.Spec g)). \<not> resolvable d notifiers r) \<and>
    clusterAlertGroupLister d (clusterName d) (snd (ref_Parse p groupID)) = (Some g, None) \<longrightarrow>
      addClusterAlert2Config d p config alerts (ks1 @ groupID # ks2) notifiers =
        addClusterAlert2Config d p config alerts (ks1 @ ks2) notifiers"
  proof (intro impI, elim conjE)
    assume unres: "\<forall>r \<in> set (ClusterGroupSpec.Recipients (ClusterAlertGroup.Spec g)). \<not> resolvable d notifiers r"
      and lookup: "clusterAlertGroupLister d (clusterName d) (snd (ref_Parse p groupID)) = (Some g, None)"
    show "addClusterAlert2Config d p config alerts (ks1 @ groupID # ks2) notifiers =
        addClusterAlert2Config d p config alerts (ks1 @ ks2) notifiers"
      unfolding addClusterAlert2Config_def
      by (rule range_err_skip) (rule clusterGroupStep_unresolved [OF lookup unres])
  qed
next
  show "addClusterAlert2Config d p config alerts keys notifiers = Inr config' \<and>
    (groupID \<in> set keys \<longrightarrow>
       (\<exists>g. clusterAlertGroupLister d (clusterName d) (snd (ref_Parse p groupID)) = (Some g, None) \<and>
            (\<forall>r \<in> set (ClusterGroupSpec.Recipients (ClusterAlertGroup.Spec g)). \<not> resolvable d notifiers r))) \<and>
    groupID \<notin> Receiver.Name ` set (Receivers config) \<and>
    (\<forall>r \<in> set (Routes (Route config)). Match r ''group_id'' \<noteq> Some groupID) \<longrightarrow>
      groupID \<notin> Receiver.Name ` set (Receivers config') \<and>
      (\<forall>r \<in> set (Routes (Route config')). Match r ''group_id'' \<noteq> Some groupID)"
  proof (intro impI, elim conjE)
    assume run: "addClusterAlert2Config d p config alerts keys notifiers = Inr config'"
      and unres: "groupID \<in> set keys \<longrightarrow>
       (\<exists>g. clusterAlertGroupLister d (clusterName d) (snd (ref_Parse p groupID)) = (Some g, None) \<and>
            (\<forall>r \<in> set (ClusterGroupSpec.Recipients (ClusterAlertGroup.Spec g)). \<not> resolvable d notifiers r))"
      and c1: "groupID \<notin> Receiver.Name ` set (Receivers config)"
      and c2: "\<forall>r \<in> set (Routes (Route config)). Match r ''group_id'' \<noteq> Some groupID"
    show "groupID \<notin> Receiver.Name ` set (Receivers config') \<and>
      (\<forall>r \<in> set (Routes (Route config')). Match r ''group_id'' \<noteq> Some groupID)"
      by (rule cluster_document_absent [OF run unres conjI [OF c1 c2]])
  qed
next
  show "(\<forall>r \<in> set (ProjectGroupSpec.Recipients (ProjectAlertGroup.Spec pg)). \<not> resolvable d notifiers r) \<and>
    projectAlertGroupLister d projectName (snd (ref_Parse p pgroupID)) = (Some pg, None) \<longrightarrow>
      range_err (projectGroupStep d p notifiers projectName groups) config (ks1 @ pgroupID # ks2) =
        range_err (projectGroupStep d p notifiers projectName groups) config (ks1 @ ks2)"
  proof (intro impI, elim conjE)
    assume unres: "\<forall>r \<in> set (ProjectGroupSpec.Recipients (ProjectAlertGroup.Spec pg)). \<not> resolvable d notifiers r"
      and lookup: "projectAlertGroupLister d projectName (snd (ref_Parse p pgroupID)) = (Some pg, None)"
    show "range_err (projectGroupStep d p notifiers projectName groups) config (ks1 @ pgroupID # ks2) =
        range_err (projectGroupStep d p notifiers projectName groups) config (ks1 @ ks2)"
      by (rule range_err_skip) (rule projectGroupStep_unresolved [OF lookup unres])
  qed
next
  show "addProjectAlert2Config d p pconfig projectGroups pkeys notifiers = Inr pconfig' \<and>
    (\<forall>pk \<in> set pkeys. pgroupID \<in> set (range_keys (index projectGroups pk)) \<longrightarrow>
       (\<exists>pg. projectAlertGroupLister d pk (snd (ref_Parse p pgroupID)) = (Some pg, None) \<and>
             (\<forall>r \<in> set (ProjectGroupSpec.Recipients (ProjectAlertGroup.Spec pg)). \<not> resolvable d notifiers r))) \<and>
    pgroupID \<notin> Receiver.Name ` set (Receivers pconfig) \<and>
    (\<forall>r \<in> set (Routes (Route pconfig)). Match r ''group_id'' \<noteq> Some pgroupID) \<longrightarrow>
      pgroupID \<notin> Receiver.Name ` set (Receivers pconfig') \<and>
      (\<forall>r \<in> set (Routes (Route pconfig')). Match r ''group_id'' \<noteq> Some pgroupID)"
  proof (intro impI, elim conjE)
    assume run: "addProjectAlert2Config d p pconfig projectGroups pkeys notifiers = Inr pconfig'"
      and unres: "\<forall>pk \<in> set pkeys. pgroupID \<in> set (range_keys (index projectGroups pk)) \<longrightarrow>
       (\<exists>pg. projectAlertGroupLister d pk (snd (ref_Parse p pgroupID)) = (Some pg, None) \<and>
             (\<forall>r \<in> set (ProjectGroupSpec.Recipients (ProjectAlertGroup.Spec pg)). \<not> resolvable d notifiers r))"
      and c1: "pgroupID \<notin> Receiver.Name ` set (Receivers pconfig)"
      and c2: "\<forall>r \<in> set (Routes (Route pconfig)). Match r ''group_id'' \<noteq> Some pgroupID"
    show "pgroupID \<notin> Receiver.Name ` set (Receivers pconfig') \<and>
      (\<forall>r \<in> set (Routes (Route pconfig')). Match r ''group_id'' \<noteq> Some pgroupID)"
      by (rule project_document_absent [OF run unres conjI [OF c1 c2]])
  qed
next
  show "groupID \<in> set keys \<longrightarrow>
      (\<exists>A. synced (snd (addClusterAlert2Operator d p alerts keys w)) = synced w @ [A] \<and>
           \<lparr> RuleGroup.Name = groupID, Rules = clusterMetricRules d p groupID (index alerts groupID) \<rparr>
             \<in> set (Groups A))"
    by (intro impI) (rule cluster_entry_published)
next
  show "(\<forall>r. SyncPrometheusRule (operatorCRDManager d) r = None) \<and> projectID \<in> set pkeys \<and>
    pgroupID \<in> set (range_keys (index projectGroups projectID)) \<longrightarrow>
      (\<exists>xs. synced (snd (addProjectAlert2Operator d p projectGroups pkeys w)) = synced w @ xs \<and>
           (\<exists>A \<in> set xs.
              \<lparr> RuleGroup.Name = pgroupID,
                Rules = projectMetricRules d p pgroupID (index (index projectGroups projectID) pgroupID) \<rparr>
                \<in> set (Groups A)))"
    by (intro impI, elim conjE, intro project_entry_published) simp_all
next
  show "addClusterAlert2Operator (d \<lparr> notifierLister := nl, clusterAlertGroupLister := gl,
       projectAlertGroupLister := pgl \<rparr>) p alerts keys w = addClusterAlert2Operator d p alerts keys w"
    by (rule operators_ignore_recipients)
next
  show "addProjectAlert2Operator (d \<lparr> notifierLister := nl, clusterAlertGroupLister := gl,
       projectAlertGroupLister := pgl \<rparr>) p projectGroups pkeys w = addProjectAlert2Operator d p projectGroups pkeys w"
    by (rule operators_ignore_recipients)
qed

theorem recipient_gating_witness:
  "addClusterAlert2Config (ex_syncer_p []) ex_pkg (GetAlertManagerDefaultConfig ex_pkg)
       [(''g1'', [ex_event]), (''g2'', [ex_metric_g2])] [''g1'', ''g2''] [ex_slack] = Inr ex_config_g1 \<and>
   addClusterAlert2Config (ex_syncer_p []) ex_pkg (GetAlertManagerDefaultConfig ex_pkg)
       [(''g1'', [ex_event]), (''g2'', [ex_metric_g2])] [''g1''] [ex_slack] = Inr ex_config_g1 \<and>
   ''g2'' \<notin> Receiver.Name ` set (Receivers ex_config_g1) \<and>
   Some ''g2'' \<notin> (\<lambda>r. Match r ''group_id'') ` set (Routes (Route ex_config_g1)) \<and>
   range_err (projectGroupStep (ex_syncer_p []) ex_pkg [ex_slack] ''p1'' [(''p1:g1'', [ex_pmetric])])
       (GetAlertManagerDefaultConfig ex_pkg) [''p1:g1''] = Inr (GetAlertManagerDefaultConfig ex_pkg) \<and>
   addProjectAlert2Config (ex_syncer_p []) ex_pkg ex_config_g1 ex_project_groups_m [''p1''] [ex_slack]
     = Inr ex_config_g1 \<and>
   ''p1:g1'' \<notin> Receiver.Name ` set (Receivers ex_config_g1) \<and>
   Some ''p1:g1'' \<notin> (\<lambda>r. Match r ''group_id'') ` set (Routes (Route ex_config_g1)) \<and>
   synced (snd (addClusterAlert2Operator (ex_syncer_p []) ex_pkg
       [(''g1'', [ex_event]), (''g2'', [ex_metric_g2])] [''g1'', ''g2''] ex_world)) =
     [\<lparr> PrometheusRule.Namespace = ''cattle-prometheus'', Name = ''c1'',
        Groups = [\<lparr> RuleGroup.Name = ''g1'', Rules = [] \<rparr>,
                  \<lparr> RuleGroup.Name = ''g2'', Rules = [''g2_r2 up == 0''] \<rparr>] \<rparr>] \<and>
   (\<exists>A. synced (snd (addClusterAlert2Operator (ex_syncer_p []) ex_pkg
       [(''g1'', [ex_event]), (''g2'', [ex_metric_g2])] [''g1'', ''g2''] ex_world)) = synced ex_world @ [A] \<and>
       \<lparr> RuleGroup.Name = ''g2'', Rules = [''g2_r2 up == 0''] \<rparr> \<in> set (Groups A)) \<and>
   synced (snd (addProjectAlert2Operator (ex_syncer_p []) ex_pkg ex_project_groups_m [''p1''] ex_world)) =
     [\<lparr> PrometheusRule.Namespace = ''cattle-prometheus-p1'', Name = ''p1'',
        Groups = [\<lparr> RuleGroup.Name = ''p1:g1'', Rules = [''p1:g1_m1 up == 0''] \<rparr>] \<rparr>] \<and>
   (\<exists>xs. synced (snd (addProjectAlert2Operator (ex_syncer_p []) ex_pkg ex_project_groups_m [''p1''] ex_world)) =
          synced ex_world @ xs \<and>
       (\<exists>A \<in> set xs. \<lparr> RuleGroup.Name = ''p1:g1'', Rules = [''p1:g1_m1 up == 0''] \<rparr> \<in> set (Groups A)))"
proof -
  let ?d = "ex_syncer_p []"
  let ?cfg = "GetAlertManagerDefaultConfig ex_pkg"
  let ?alerts = "[(''g1'', [ex_event]), (''g2'', [ex_metric_g2])]"
  have unres: "\<forall>r \<in> set (ClusterGroupSpec.Recipients (ClusterAlertGroup.Spec (ex_group ''c1:gone''))).
      \<not> resolvable ?d [ex_slack] r"
    by (simp add: ex_group_def resolvable_def ex_syncer_p_def ex_syncer_def ex_slack_def)
  have punres: "\<forall>r \<in> set (ProjectGroupSpec.Recipients (ProjectAlertGroup.Spec ex_project_group)).
      \<not> resolvable ?d [ex_slack] r"
    by (simp add: ex_project_group_def resolvable_def ex_syncer_p_def ex_syncer_def ex_slack_def)
  have lookup: "clusterAlertGroupLister ?d (clusterName ?d) (snd (ref_Parse ex_pkg ''g2''))
      = (Some (ex_group ''c1:gone''), None)"
    by (simp add: ex_syncer_p_def ex_syncer_def ex_pkg_def)
  have plookup: "projectAlertGroupLister ?d ''p1'' (snd (ref_Parse ex_pkg ''p1:g1''))
      = (Some ex_project_group, None)"
    by (simp add: ex_syncer_p_def ex_syncer_def ex_pkg_def)
  have every: "''g2'' \<in> set [''g1'', ''g2''] \<longrightarrow>
       (\<exists>g. clusterAlertGroupLister ?d (clusterName ?d) (snd (ref_Parse ex_pkg ''g2'')) = (Some g, None) \<and>
            (\<forall>r \<in> set (ClusterGroupSpec.Recipients (ClusterAlertGroup.Spec g)). \<not> resolvable ?d [ex_slack] r))"
    using unres lookup by blast
  have pevery: "\<forall>pk \<in> set [''p1'']. ''p1:g1'' \<in> set (range_keys (index ex_project_groups_m pk)) \<longrightarrow>
       (\<exists>pg. projectAlertGroupLister ?d pk (snd (ref_Parse ex_pkg ''p1:g1'')) = (Some pg, None) \<and>
             (\<forall>r \<in> set (ProjectGroupSpec.Recipients (ProjectAlertGroup.Spec pg)). \<not> resolvable ?d [ex_slack] r))"
    using punres plookup by simp
  have run: "addClusterAlert2Config ?d ex_pkg ?cfg ?alerts [''g1'', ''g2''] [ex_slack] = Inr ex_config_g1"
    by (simp add: sync_defs ex_defs ex_syncer_p_def ex_metric_g2_def ex_config_g1_def resolvable_def)
  have prun: "range_err (projectGroupStep ?d ex_pkg [ex_slack] ''p1'' [(''p1:g1'', [ex_pmetric])])
       ?cfg [''p1:g1''] = Inr ?cfg"
    by (simp add: sync_defs ex_defs ex_syncer_p_def ex_project_group_def)
  have drun: "addProjectAlert2Config ?d ex_pkg ex_config_g1 ex_project_groups_m [''p1''] [ex_slack]
     = Inr ex_config_g1"
    by (simp add: sync_defs ex_defs ex_syncer_p_def ex_project_group_def ex_project_groups_m_def)
  have nok: "\<forall>r. SyncPrometheusRule (operatorCRDManager ?d) r = None"
    by (simp add: ex_syncer_p_def ex_syncer_def)
  have keys: "''g2'' \<in> set [''g1'', ''g2'']" "''p1'' \<in> set [''p1'']"
    "''p1:g1'' \<in> set (range_keys (index ex_project_groups_m ''p1''))"
    by (simp_all add: range_keys_def index_def ex_project_groups_m_def)
  have c0: "''g2'' \<notin> Receiver.Name ` set (Receivers ?cfg)"
    "\<forall>r \<in> set (Routes (Route ?cfg)). Match r ''group_id'' \<noteq> Some ''g2''"
    "''p1:g1'' \<notin> Receiver.Name ` set (Receivers ex_config_g1)"
    "\<forall>r \<in> set (Routes (Route ex_config_g1)). Match r ''group_id'' \<noteq> Some ''p1:g1''"
    by (simp_all add: ex_pkg_def ex_config_g1_def)
  have rules: "clusterMetricRules ?d ex_pkg ''g2'' (index ?alerts ''g2'') = [''g2_r2 up == 0'']"
    "projectMetricRules ?d ex_pkg ''p1:g1'' (index (index ex_project_groups_m ''p1'') ''p1:g1'') =
       [''p1:g1_m1 up == 0'']"
    by (simp_all add: clusterMetricRules_def projectMetricRules_def index_def ex_metric_g2_def ex_pmetric_def
        ex_project_groups_m_def ex_pkg_def ex_comm_def)
  have e1: "synced (snd (addClusterAlert2Operator ?d ex_pkg ?alerts [''g1'', ''g2''] ex_world)) =
     [\<lparr> PrometheusRule.Namespace = ''cattle-prometheus'', Name = ''c1'',
        Groups = [\<lparr> RuleGroup.Name = ''g1'', Rules = [] \<rparr>,
                  \<lparr> RuleGroup.Name = ''g2'', Rules = [''g2_r2 up == 0''] \<rparr>] \<rparr>]"
    by (simp add: sync_defs ex_defs ex_syncer_p_def ex_metric_g2_def)
  have e2: "synced (snd (addProjectAlert2Operator ?d ex_pkg ex_project_groups_m [''p1''] ex_world)) =
     [\<lparr> PrometheusRule.Namespace = ''cattle-prometheus-p1'', Name = ''p1'',
        Groups = [\<lparr> RuleGroup.Name = ''p1:g1'', Rules = [''p1:g1_m1 up == 0''] \<rparr>] \<rparr>]"
    by (simp add: sync_defs ex_defs ex_syncer_p_def ex_pmetric_def ex_project_groups_m_def)
  note t = recipient_gating [where d = ?d and p = ex_pkg and notifiers = "[ex_slack]"
      and g = "ex_group ''c1:gone''" and groupID = "''g2''" and config = ?cfg and alerts = ?alerts
      and ?ks1.0 = "[''g1'']" and ?ks2.0 = "[]" and config' = ex_config_g1 and keys = "[''g1'', ''g2'']"
      and w = ex_world and pg = ex_project_group and projectName = "''p1''" and pgroupID = "''p1:g1''"
      and groups = "[(''p1:g1'', [ex_pmetric])]" and projectID = "''p1''" and pkeys = "[''p1'']"
      and projectGroups = ex_project_groups_m and pconfig = ex_config_g1 and pconfig' = ex_config_g1]
  have a1: "addClusterAlert2Config ?d ex_pkg ?cfg ?alerts [''g1''] [ex_slack] = Inr ex_config_g1"
    using t [THEN conjunct1] unres lookup run by simp
  have a2: "''g2'' \<notin> Receiver.Name ` set (Receivers ex_config_g1) \<and>
      (\<forall>r \<in> set (Routes (Route ex_config_g1)). Match r ''group_id'' \<noteq> Some ''g2'')"
    using t [THEN conjunct2, THEN conjunct1] run every c0(1,2) by blast
  have a3: "''p1:g1'' \<notin> Receiver.Name ` set (Receivers ex_config_g1) \<and>
      (\<forall>r \<in> set (Routes (Route ex_config_g1)). Match r ''group_id'' \<noteq> Some ''p1:g1'')"
    using t [THEN conjunct2, THEN conjunct2, THEN conjunct2, THEN conjunct1] drun pevery c0(3,4) by blast
  have a4: "\<exists>A. synced (snd (addClusterAlert2Operator ?d ex_pkg ?alerts [''g1'', ''g2''] ex_world)) =
        synced ex_world @ [A] \<and> \<lparr> RuleGroup.Name = ''g2'', Rules = [''g2_r2 up == 0''] \<rparr> \<in> set (Groups A)"
    using t [THEN conjunct2, THEN conjunct2, THEN conjunct2, THEN conjunct2, THEN conjunct1] keys rules by simp
  have a5: "\<exists>xs. synced (snd (addProjectAlert2Operator ?d ex_pkg ex_project_groups_m [''p1''] ex_world)) =
          synced ex_world @ xs \<and>
       (\<exists>A \<in> set xs. \<lparr> RuleGroup.Name = ''p1:g1'', Rules = [''p1:g1_m1 up == 0''] \<rparr> \<in> set (Groups A))"
    using t [THEN conjunct2, THEN conjunct2, THEN conjunct2, THEN conjunct2, THEN conjunct2, THEN conjunct1]
      keys rules nok by simp
  from a2 have a2': "''g2'' \<notin> Receiver.Name ` set (Receivers ex_config_g1)"
    "Some ''g2'' \<notin> (\<lambda>r. Match r ''group_id'') ` set (Routes (Route ex_config_g1))"
    by auto
  from a3 have a3': "''p1:g1'' \<notin> Receiver.Name ` set (Receivers ex_config_g1)"
    "Some ''p1:g1'' \<notin> (\<lambda>r. Match r ''group_id'') ` set (Routes (Route ex_config_g1))"
    by auto
  from run a1 a2' prun drun a3' e1 a4 e2 a5 show ?thesis by blast
qed

subsection \<open>Groups that are not found, and failures, in the reconcile\<close>
























end
